theory Spec2Isabelle
  imports Main "HOL-Library.Word"
begin

unbundle bit_operations_syntax

section \<open>Data model of gstd3d11memory.c\<close>

text \<open>
  Machine types: \<open>guint\<close>, \<open>UINT\<close> and the flag words are 32-bit words; \<open>gint\<close> is a
  32-bit word read with \<open>sint\<close>.  A C pointer is \<open>nat option\<close>, with \<open>None\<close> for NULL.
\<close>

type_synonym guint = "32 word"
type_synonym gint = "32 word"
type_synonym pointer = "nat option"

text \<open>
  Modelled from the spec: gstd3d11memory.h is not among the sources.  The map flag of
  GPU-direct access and the two pending-transfer flags are single bits above
  \<open>GST_MAP_FLAG_LAST\<close> (bit 16) and from \<open>GST_MEMORY_FLAG_LAST\<close> (bit 20) on, as in
  the header of GStreamer 1.20; \<open>GST_MAP_READ\<close> and \<open>GST_MAP_WRITE\<close> are the two lowest
  bits.
\<close>

definition GST_MAP_READ :: guint where
  "GST_MAP_READ = 1"

definition GST_MAP_WRITE :: guint where
  "GST_MAP_WRITE = 2"

definition GST_MAP_READWRITE :: guint where
  "GST_MAP_READWRITE = GST_MAP_READ OR GST_MAP_WRITE"

definition GST_MAP_D3D11 :: guint where
  "GST_MAP_D3D11 = push_bit 17 1"

definition GST_D3D11_MEMORY_TRANSFER_NEED_DOWNLOAD :: guint where
  "GST_D3D11_MEMORY_TRANSFER_NEED_DOWNLOAD = push_bit 20 1"

definition GST_D3D11_MEMORY_TRANSFER_NEED_UPLOAD :: guint where
  "GST_D3D11_MEMORY_TRANSFER_NEED_UPLOAD = push_bit 21 1"

definition GST_MINI_OBJECT_FLAG_IS_SET :: "guint \<Rightarrow> guint \<Rightarrow> bool" where
  "GST_MINI_OBJECT_FLAG_IS_SET fl flag = (fl AND flag \<noteq> 0)"

definition GST_MINI_OBJECT_FLAG_SET :: "guint \<Rightarrow> guint \<Rightarrow> guint" where
  "GST_MINI_OBJECT_FLAG_SET fl flag = fl OR flag"

definition GST_MINI_OBJECT_FLAG_UNSET :: "guint \<Rightarrow> guint \<Rightarrow> guint" where
  "GST_MINI_OBJECT_FLAG_UNSET fl flag = fl AND NOT flag"

datatype GstD3D11MemoryType =
    GST_D3D11_MEMORY_TYPE_TEXTURE
  | GST_D3D11_MEMORY_TYPE_ARRAY
  | GST_D3D11_MEMORY_TYPE_STAGING

datatype D3D11_USAGE =
    D3D11_USAGE_DEFAULT
  | D3D11_USAGE_IMMUTABLE
  | D3D11_USAGE_DYNAMIC
  | D3D11_USAGE_STAGING

datatype D3D11_MAP = D3D11_MAP_READ | D3D11_MAP_WRITE | D3D11_MAP_READ_WRITE

text \<open>\<open>DXGI_FORMAT\<close> is the enumeration of dxgiformat.h, kept as its number.\<close>

type_synonym DXGI_FORMAT = "32 word"

definition DXGI_FORMAT_UNKNOWN :: DXGI_FORMAT where
  "DXGI_FORMAT_UNKNOWN = 0"

definition DXGI_FORMAT_NV12 :: DXGI_FORMAT where
  "DXGI_FORMAT_NV12 = 103"

definition DXGI_FORMAT_P010 :: DXGI_FORMAT where
  "DXGI_FORMAT_P010 = 104"

definition DXGI_FORMAT_P016 :: DXGI_FORMAT where
  "DXGI_FORMAT_P016 = 105"

definition D3D11_CPU_ACCESS_WRITE :: guint where
  "D3D11_CPU_ACCESS_WRITE = 0x10000"

definition D3D11_CPU_ACCESS_READ :: guint where
  "D3D11_CPU_ACCESS_READ = 0x20000"

record D3D11_TEXTURE2D_DESC =
  Width :: guint
  Height :: guint
  MipLevels :: guint
  ArraySize :: guint
  Format :: DXGI_FORMAT
  SampleDesc_Count :: guint
  SampleDesc_Quality :: guint
  Usage :: D3D11_USAGE
  BindFlags :: guint
  CPUAccessFlags :: guint
  MiscFlags :: guint

text \<open>
  \<open>GstD3D11Memory\<close> with its private part and the flag word of its mini object.  The
  derived views take no part in mapping or in slot accounting and are left out;
  \<open>map_pData\<close> and \<open>map_RowPitch\<close> are the fields of \<open>priv->map\<close>.
\<close>

record GstD3D11Memory =
  mini_object_flags :: guint
  mem_type :: GstD3D11MemoryType
  texture :: pointer
  desc :: D3D11_TEXTURE2D_DESC
  subresource_index :: guint
  staging :: pointer
  map_pData :: pointer
  map_RowPitch :: guint
  cpu_map_count :: gint

section \<open>The device collaborator\<close>

text \<open>
  The device is outside the source.  Its model records every native call in \<open>calls\<close>,
  in order, and answers the two calls that can fail from the history so far:
  \<open>create_texture_result\<close> gives the new texture (NULL when the HRESULT is a failure) and
  \<open>map_result\<close> the mapped address and row pitch (\<open>None\<close> on failure).  The device
  lock taken around each native call is not modelled.
\<close>

datatype d3d11_call =
    Call_CreateTexture2D D3D11_TEXTURE2D_DESC
  | Call_CopySubresourceRegion pointer guint pointer guint
  | Call_Map pointer guint D3D11_MAP
  | Call_Unmap pointer guint

record GstD3D11Device =
  create_texture_result :: "d3d11_call list \<Rightarrow> D3D11_TEXTURE2D_DESC \<Rightarrow> pointer"
  map_result :: "d3d11_call list \<Rightarrow> pointer \<Rightarrow> D3D11_MAP \<Rightarrow> (nat \<times> guint) option"
  calls :: "d3d11_call list"

definition ID3D11Device_CreateTexture2D ::
  "GstD3D11Device \<Rightarrow> D3D11_TEXTURE2D_DESC \<Rightarrow> pointer \<times> GstD3D11Device" where
  "ID3D11Device_CreateTexture2D dev d =
     (create_texture_result dev (calls dev) d,
      dev\<lparr>calls := calls dev @ [Call_CreateTexture2D d]\<rparr>)"

definition ID3D11DeviceContext_CopySubresourceRegion ::
  "GstD3D11Device \<Rightarrow> pointer \<Rightarrow> guint \<Rightarrow> pointer \<Rightarrow> guint \<Rightarrow> GstD3D11Device" where
  "ID3D11DeviceContext_CopySubresourceRegion dev dst dst_sub src src_sub =
     dev\<lparr>calls := calls dev @ [Call_CopySubresourceRegion dst dst_sub src src_sub]\<rparr>"

definition ID3D11DeviceContext_Map ::
  "GstD3D11Device \<Rightarrow> pointer \<Rightarrow> guint \<Rightarrow> D3D11_MAP \<Rightarrow> (nat \<times> guint) option \<times> GstD3D11Device" where
  "ID3D11DeviceContext_Map dev res sub map_type =
     (map_result dev (calls dev) res map_type,
      dev\<lparr>calls := calls dev @ [Call_Map res sub map_type]\<rparr>)"

definition ID3D11DeviceContext_Unmap ::
  "GstD3D11Device \<Rightarrow> pointer \<Rightarrow> guint \<Rightarrow> GstD3D11Device" where
  "ID3D11DeviceContext_Unmap dev res sub = dev\<lparr>calls := calls dev @ [Call_Unmap res sub]\<rparr>"

section \<open>Mapping and unmapping a memory object\<close>

datatype error = Assertion_failed | Out_of_bounds

definition gst_map_flags_to_d3d11 :: "guint \<Rightarrow> error + D3D11_MAP" where
  "gst_map_flags_to_d3d11 flags =
     (if flags AND GST_MAP_READWRITE = GST_MAP_READWRITE then Inr D3D11_MAP_READ_WRITE
      else if flags AND GST_MAP_WRITE = GST_MAP_WRITE then Inr D3D11_MAP_WRITE
      else if flags AND GST_MAP_READ = GST_MAP_READ then Inr D3D11_MAP_READ
      else Inl Assertion_failed)"

definition staging_desc :: "D3D11_TEXTURE2D_DESC \<Rightarrow> D3D11_TEXTURE2D_DESC" where
  "staging_desc ref =
     \<lparr>Width = Width ref, Height = Height ref, MipLevels = 1, ArraySize = 1,
      Format = Format ref, SampleDesc_Count = 1, SampleDesc_Quality = 0,
      Usage = D3D11_USAGE_STAGING, BindFlags = 0,
      CPUAccessFlags = D3D11_CPU_ACCESS_READ OR D3D11_CPU_ACCESS_WRITE, MiscFlags = 0\<rparr>"

definition create_staging_texture ::
  "GstD3D11Device \<Rightarrow> D3D11_TEXTURE2D_DESC \<Rightarrow> pointer \<times> GstD3D11Device" where
  "create_staging_texture dev ref = ID3D11Device_CreateTexture2D dev (staging_desc ref)"

definition map_cpu_access_data ::
  "GstD3D11Device \<Rightarrow> GstD3D11Memory \<Rightarrow> D3D11_MAP \<Rightarrow> bool \<times> GstD3D11Memory \<times> GstD3D11Device" where
  "map_cpu_access_data dev dmem map_type =
     (let dev1 =
        (if GST_MINI_OBJECT_FLAG_IS_SET (mini_object_flags dmem)
              GST_D3D11_MEMORY_TRANSFER_NEED_DOWNLOAD
         then ID3D11DeviceContext_CopySubresourceRegion dev (staging dmem) 0
                (texture dmem) (subresource_index dmem)
         else dev)
      in case ID3D11DeviceContext_Map dev1 (staging dmem) 0 map_type of
           (None, dev2) \<Rightarrow> (False, dmem, dev2)
         | (Some (p, pitch), dev2) \<Rightarrow>
             (True, dmem\<lparr>map_pData := Some p, map_RowPitch := pitch\<rparr>, dev2))"

definition gst_d3d11_memory_map_staging ::
  "GstD3D11Device \<Rightarrow> GstD3D11Memory \<Rightarrow> guint
     \<Rightarrow> error + (pointer \<times> GstD3D11Memory \<times> GstD3D11Device)" where
  "gst_d3d11_memory_map_staging dev dmem flags =
     (if cpu_map_count dmem = 0 then
        (case gst_map_flags_to_d3d11 flags of
           Inl e \<Rightarrow> Inl e
         | Inr map_type \<Rightarrow>
            (case ID3D11DeviceContext_Map dev (texture dmem) 0 map_type of
               (None, dev1) \<Rightarrow> Inr (None, dmem, dev1)
             | (Some (p, pitch), dev1) \<Rightarrow>
                 Inr (Some p,
                      dmem\<lparr>map_pData := Some p, map_RowPitch := pitch,
                            cpu_map_count := cpu_map_count dmem + 1\<rparr>, dev1)))
      else Inr (map_pData dmem, dmem\<lparr>cpu_map_count := cpu_map_count dmem + 1\<rparr>, dev))"

text \<open>The branch of \<open>gst_d3d11_memory_map\<close> taken with \<open>GST_MAP_D3D11\<close> (lines 422 to 444).\<close>

definition memory_map_d3d11 ::
  "GstD3D11Device \<Rightarrow> GstD3D11Memory \<Rightarrow> guint
     \<Rightarrow> error + (pointer \<times> GstD3D11Memory \<times> GstD3D11Device)" where
  "memory_map_d3d11 dev dmem flags =
     (let dev1 =
        (if staging dmem \<noteq> None \<and>
            GST_MINI_OBJECT_FLAG_IS_SET (mini_object_flags dmem)
              GST_D3D11_MEMORY_TRANSFER_NEED_UPLOAD
         then ID3D11DeviceContext_CopySubresourceRegion dev (texture dmem)
                (subresource_index dmem) (staging dmem) 0
         else dev);
        fl1 = GST_MINI_OBJECT_FLAG_UNSET (mini_object_flags dmem)
                GST_D3D11_MEMORY_TRANSFER_NEED_UPLOAD;
        fl2 = (if flags AND GST_MAP_WRITE = GST_MAP_WRITE
               then GST_MINI_OBJECT_FLAG_SET fl1 GST_D3D11_MEMORY_TRANSFER_NEED_DOWNLOAD
               else fl1)
      in if texture dmem = None then Inl Assertion_failed
         else Inr (texture dmem, dmem\<lparr>mini_object_flags := fl2\<rparr>, dev1))"

text \<open>
  The work done on the counter's transition from 0 (lines 446 to 471): the staging
  texture is created when there is none, then the staging texture is mapped.  The
  boolean is false on the two paths that return NULL.
\<close>

definition memory_map_first ::
  "GstD3D11Device \<Rightarrow> GstD3D11Memory \<Rightarrow> guint
     \<Rightarrow> error + (bool \<times> GstD3D11Memory \<times> GstD3D11Device)" where
  "memory_map_first dev dmem flags =
     (case (if staging dmem = None then
              (case create_staging_texture dev (desc dmem) of
                 (None, dev1) \<Rightarrow> (False, dmem, dev1)
               | (Some s, dev1) \<Rightarrow>
                   (True,
                    dmem\<lparr>staging := Some s,
                          mini_object_flags :=
                            GST_MINI_OBJECT_FLAG_SET (mini_object_flags dmem)
                              GST_D3D11_MEMORY_TRANSFER_NEED_DOWNLOAD\<rparr>, dev1))
            else (True, dmem, dev)) of
        (False, dmem1, dev1) \<Rightarrow> Inr (False, dmem1, dev1)
      | (True, dmem1, dev1) \<Rightarrow>
          (case gst_map_flags_to_d3d11 flags of
             Inl e \<Rightarrow> Inl e
           | Inr map_type \<Rightarrow> Inr (map_cpu_access_data dev1 dmem1 map_type)))"

text \<open>The end of a CPU map (lines 473 to 481).\<close>

definition memory_map_finish :: "GstD3D11Memory \<Rightarrow> guint \<Rightarrow> GstD3D11Memory" where
  "memory_map_finish dmem flags =
     (let fl1 = (if flags AND GST_MAP_WRITE = GST_MAP_WRITE
                 then GST_MINI_OBJECT_FLAG_SET (mini_object_flags dmem)
                        GST_D3D11_MEMORY_TRANSFER_NEED_UPLOAD
                 else mini_object_flags dmem);
          fl2 = GST_MINI_OBJECT_FLAG_UNSET fl1 GST_D3D11_MEMORY_TRANSFER_NEED_DOWNLOAD
      in dmem\<lparr>mini_object_flags := fl2, cpu_map_count := cpu_map_count dmem + 1\<rparr>)"

definition gst_d3d11_memory_map ::
  "GstD3D11Device \<Rightarrow> GstD3D11Memory \<Rightarrow> guint
     \<Rightarrow> error + (pointer \<times> GstD3D11Memory \<times> GstD3D11Device)" where
  "gst_d3d11_memory_map dev dmem flags =
     (if mem_type dmem = GST_D3D11_MEMORY_TYPE_STAGING then
        (if flags AND GST_MAP_D3D11 = GST_MAP_D3D11 then Inr (texture dmem, dmem, dev)
         else gst_d3d11_memory_map_staging dev dmem flags)
      else if flags AND GST_MAP_D3D11 = GST_MAP_D3D11 then memory_map_d3d11 dev dmem flags
      else if cpu_map_count dmem = 0 then
        (case memory_map_first dev dmem flags of
           Inl e \<Rightarrow> Inl e
         | Inr (False, dmem1, dev1) \<Rightarrow> Inr (None, dmem1, dev1)
         | Inr (True, dmem1, dev1) \<Rightarrow>
             (let dmem2 = memory_map_finish dmem1 flags
              in Inr (map_pData dmem2, dmem2, dev1)))
      else
        (let dmem2 = memory_map_finish dmem flags
         in Inr (map_pData dmem2, dmem2, dev)))"

definition unmap_cpu_access_data :: "GstD3D11Device \<Rightarrow> GstD3D11Memory \<Rightarrow> GstD3D11Device" where
  "unmap_cpu_access_data dev dmem =
     (let res = (if mem_type dmem = GST_D3D11_MEMORY_TYPE_STAGING then texture dmem
                 else staging dmem)
      in ID3D11DeviceContext_Unmap dev res 0)"

definition gst_d3d11_memory_unmap_full ::
  "GstD3D11Device \<Rightarrow> GstD3D11Memory \<Rightarrow> guint \<Rightarrow> GstD3D11Memory \<times> GstD3D11Device" where
  "gst_d3d11_memory_unmap_full dev dmem info_flags =
     (if info_flags AND GST_MAP_D3D11 = GST_MAP_D3D11 then
        (if mem_type dmem \<noteq> GST_D3D11_MEMORY_TYPE_STAGING \<and>
            info_flags AND GST_MAP_WRITE = GST_MAP_WRITE
         then (dmem\<lparr>mini_object_flags :=
                 GST_MINI_OBJECT_FLAG_SET (mini_object_flags dmem)
                   GST_D3D11_MEMORY_TRANSFER_NEED_DOWNLOAD\<rparr>, dev)
         else (dmem, dev))
      else
        (let fl1 = (if mem_type dmem \<noteq> GST_D3D11_MEMORY_TYPE_STAGING \<and>
                       info_flags AND GST_MAP_WRITE \<noteq> 0
                    then GST_MINI_OBJECT_FLAG_SET (mini_object_flags dmem)
                           GST_D3D11_MEMORY_TRANSFER_NEED_UPLOAD
                    else mini_object_flags dmem);
             dmem1 = dmem\<lparr>mini_object_flags := fl1,
                           cpu_map_count := cpu_map_count dmem - 1\<rparr>
         in if 0 < sint (cpu_map_count dmem1) then (dmem1, dev)
            else (dmem1, unmap_cpu_access_data dev dmem1)))"

definition gst_d3d11_memory_share ::
  "GstD3D11Memory \<Rightarrow> 64 word \<Rightarrow> 64 word \<Rightarrow> GstD3D11Memory option \<times> GstD3D11Memory" where
  "gst_d3d11_memory_share mem offset sz = (None, mem)"

section \<open>The allocator\<close>

text \<open>
  The private state of the allocator.  \<open>alloc_texture\<close> is \<open>priv->texture\<close>, the parent
  array texture.  A \<open>GArray\<close> is a list, NULL when it was never created.  The mutex is
  not modelled: what runs between lock and unlock is one step.  \<open>cond_waiters\<close> are the
  threads blocked in \<open>g_cond_wait\<close> on \<open>priv->cond\<close>; \<open>g_cond_broadcast\<close> empties it.
  Reference counts of the textures are left out.
\<close>

record GstD3D11AllocatorPrivate =
  alloc_texture :: pointer
  array_in_use :: "8 word list option"
  decoder_output_view_array :: "pointer list option"
  processor_input_view_array :: "pointer list option"
  num_array_textures_in_use :: guint
  array_texture_size :: guint
  flushing :: bool
  cond_waiters :: "nat list"

text \<open>
  The part of \<open>GstAllocator\<close> that \<open>gst_d3d11_allocator_init\<close> fills in: the name of the
  memory type and the functions of the memory interface.
\<close>

record GstAllocator =
  mem_type_name :: string
  mem_map :: "GstD3D11Device \<Rightarrow> GstD3D11Memory \<Rightarrow> guint
     \<Rightarrow> error + (pointer \<times> GstD3D11Memory \<times> GstD3D11Device)"
  mem_unmap_full :: "GstD3D11Device \<Rightarrow> GstD3D11Memory \<Rightarrow> guint
     \<Rightarrow> GstD3D11Memory \<times> GstD3D11Device"
  mem_share :: "GstD3D11Memory \<Rightarrow> 64 word \<Rightarrow> 64 word
     \<Rightarrow> GstD3D11Memory option \<times> GstD3D11Memory"

definition GST_D3D11_MEMORY_NAME :: string where
  "GST_D3D11_MEMORY_NAME = ''D3D11Memory''"

definition gst_d3d11_allocator_init :: "GstAllocator \<times> GstD3D11AllocatorPrivate" where
  "gst_d3d11_allocator_init =
     (\<lparr>mem_type_name = GST_D3D11_MEMORY_NAME,
       mem_map = gst_d3d11_memory_map,
       mem_unmap_full = gst_d3d11_memory_unmap_full,
       mem_share = gst_d3d11_memory_share\<rparr>,
      \<lparr>alloc_texture = None, array_in_use = None, decoder_output_view_array = None,
       processor_input_view_array = None, num_array_textures_in_use = 0,
       array_texture_size = 1, flushing = False, cond_waiters = []\<rparr>)"

text \<open>
  Modelled from the spec: gstd3d11memory.h is not among the sources;
  \<open>GST_D3D11_ALLOCATION_FLAG_TEXTURE_ARRAY\<close> is the flag "use texture array", bit 0 there.
  The bind flags are those of d3d11.h.
\<close>

definition GST_D3D11_ALLOCATION_FLAG_TEXTURE_ARRAY :: guint where
  "GST_D3D11_ALLOCATION_FLAG_TEXTURE_ARRAY = 1"

definition D3D11_BIND_RENDER_TARGET :: guint where
  "D3D11_BIND_RENDER_TARGET = 0x20"

definition D3D11_BIND_UNORDERED_ACCESS :: guint where
  "D3D11_BIND_UNORDERED_ACCESS = 0x80"

definition D3D11_BIND_DECODER :: guint where
  "D3D11_BIND_DECODER = 0x200"

definition D3D11_BIND_VIDEO_ENCODER :: guint where
  "D3D11_BIND_VIDEO_ENCODER = 0x400"

definition check_bind_flags_for_processor_input_view :: "guint \<Rightarrow> bool" where
  "check_bind_flags_for_processor_input_view bind_flags =
     (let compatible_flags = D3D11_BIND_DECODER OR D3D11_BIND_VIDEO_ENCODER OR
            D3D11_BIND_RENDER_TARGET OR D3D11_BIND_UNORDERED_ACCESS
      in if bind_flags = 0 then True
         else if bind_flags AND compatible_flags \<noteq> 0 then True
         else False)"

text \<open>
  The loop of lines 993 to 998 from index \<open>i\<close>: \<open>Inr (Some k)\<close> when it breaks at \<open>k\<close>,
  \<open>Inr None\<close> when it runs to \<open>ArraySize\<close>.  \<open>g_array_index\<close> checks no bound; a read
  past the array's length is \<open>Out_of_bounds\<close>.
\<close>

function scan_in_use :: "8 word list \<Rightarrow> nat \<Rightarrow> nat \<Rightarrow> error + nat option" where
  "scan_in_use arr n i =
     (if i < n then
        (if i < length arr then
           (if arr ! i = 0 then Inr (Some i) else scan_in_use arr n (Suc i))
         else Inl Out_of_bounds)
      else Inr None)"
  by pat_completeness auto
termination
  by (relation "measure (\<lambda>(arr, n, i). n - i)") auto

declare scan_in_use.simps [simp del]

text \<open>The lazy creation of the bitmap and the view tables (lines 968 to 991).\<close>

definition ensure_arrays ::
  "D3D11_TEXTURE2D_DESC \<Rightarrow> GstD3D11AllocatorPrivate \<Rightarrow> GstD3D11AllocatorPrivate" where
  "ensure_arrays d priv =
     (if array_in_use priv = None then
        priv\<lparr>array_in_use := Some (replicate (unat (ArraySize d)) 0),
             array_texture_size := ArraySize d,
             decoder_output_view_array :=
               (if BindFlags d AND D3D11_BIND_DECODER = D3D11_BIND_DECODER \<and>
                   decoder_output_view_array priv = None
                then Some (replicate (unat (ArraySize d)) None)
                else decoder_output_view_array priv),
             processor_input_view_array :=
               (if check_bind_flags_for_processor_input_view (BindFlags d)
                then Some (replicate (unat (ArraySize d)) None)
                else processor_input_view_array priv)\<rparr>
      else priv)"

text \<open>
  One pass of thread \<open>self\<close> from the label \<open>do_again\<close> to the unlock (lines 959 to 1010):
  it returns because of flushing, or goes to sleep on the condition, or takes a slot.
\<close>

datatype slot_result = Slot_flushing | Slot_wait | Slot_index nat

definition alloc_array_slot ::
  "nat \<Rightarrow> D3D11_TEXTURE2D_DESC \<Rightarrow> GstD3D11AllocatorPrivate
     \<Rightarrow> error + (slot_result \<times> GstD3D11AllocatorPrivate)" where
  "alloc_array_slot self d priv =
     (if flushing priv then Inr (Slot_flushing, priv)
      else
        (let priv1 = ensure_arrays d priv
         in case array_in_use priv1 of
              None \<Rightarrow> Inl Assertion_failed
            | Some arr \<Rightarrow>
               (case scan_in_use arr (unat (ArraySize d)) 0 of
                  Inl e \<Rightarrow> Inl e
                | Inr None \<Rightarrow>
                    Inr (Slot_wait, priv1\<lparr>cond_waiters := cond_waiters priv1 @ [self]\<rparr>)
                | Inr (Some i) \<Rightarrow>
                    Inr (Slot_index i,
                         priv1\<lparr>array_in_use := Some (arr[i := 1]),
                               num_array_textures_in_use :=
                                 num_array_textures_in_use priv1 + 1\<rparr>))))"

text \<open>
  The loop through \<open>do_again\<close>.  While the thread sleeps, other threads change the
  allocator: each element of \<open>env\<close> is what they did between one \<open>g_cond_wait\<close> and
  the wake-up that ends it (a broadcast or a spurious one).  With no element left the
  thread stays blocked, and the result is \<open>Slot_wait\<close>.
\<close>

fun alloc_array_loop ::
  "(GstD3D11AllocatorPrivate \<Rightarrow> GstD3D11AllocatorPrivate) list \<Rightarrow> nat
     \<Rightarrow> D3D11_TEXTURE2D_DESC \<Rightarrow> GstD3D11AllocatorPrivate
     \<Rightarrow> error + (slot_result \<times> GstD3D11AllocatorPrivate)" where
  "alloc_array_loop [] self d priv = alloc_array_slot self d priv"
| "alloc_array_loop (e # env) self d priv =
     (case alloc_array_slot self d priv of
        Inr (Slot_wait, priv1) \<Rightarrow>
          (let priv2 = e priv1
           in alloc_array_loop env self d
                (priv2\<lparr>cond_waiters := removeAll self (cond_waiters priv2)\<rparr>))
      | r \<Rightarrow> r)"

text \<open>
  The memory object as lines 1033 to 1044 fill it in, over zeroed storage.
  \<open>gst_memory_init\<close>, called with no flags, leaves \<open>GST_MINI_OBJECT_FLAG_LOCKABLE\<close> (bit 0
  of the core's mini object flags) in the flag word.
\<close>

definition GST_MINI_OBJECT_FLAG_LOCKABLE :: guint where
  "GST_MINI_OBJECT_FLAG_LOCKABLE = 1"

definition new_memory ::
  "pointer \<Rightarrow> D3D11_TEXTURE2D_DESC \<Rightarrow> GstD3D11MemoryType \<Rightarrow> guint \<Rightarrow> GstD3D11Memory" where
  "new_memory tex d ty index_to_use =
     \<lparr>mini_object_flags = GST_MINI_OBJECT_FLAG_LOCKABLE, mem_type = ty, texture = tex, desc = d,
      subresource_index = index_to_use, staging = None, map_pData = None,
      map_RowPitch = 0, cpu_map_count = 0\<rparr>"

datatype alloc_outcome = Alloc_blocked | Alloc_returned "GstD3D11Memory option"

definition gst_d3d11_allocator_alloc ::
  "(GstD3D11AllocatorPrivate \<Rightarrow> GstD3D11AllocatorPrivate) list \<Rightarrow> nat \<Rightarrow> GstD3D11Device
     \<Rightarrow> GstD3D11AllocatorPrivate \<Rightarrow> D3D11_TEXTURE2D_DESC \<Rightarrow> guint \<Rightarrow> 64 word
     \<Rightarrow> error + (alloc_outcome \<times> GstD3D11AllocatorPrivate \<times> GstD3D11Device)" where
  "gst_d3d11_allocator_alloc env self dev priv d flags sz =
     (if sz = 0 then Inr (Alloc_returned None, priv, dev)
      else if flags AND GST_D3D11_ALLOCATION_FLAG_TEXTURE_ARRAY \<noteq> 0 then
        (case alloc_array_loop env self d priv of
           Inl e \<Rightarrow> Inl e
         | Inr (Slot_flushing, priv1) \<Rightarrow> Inr (Alloc_returned None, priv1, dev)
         | Inr (Slot_wait, priv1) \<Rightarrow> Inr (Alloc_blocked, priv1, dev)
         | Inr (Slot_index index_to_use, priv1) \<Rightarrow>
            (case (if alloc_texture priv1 = None then ID3D11Device_CreateTexture2D dev d
                   else (alloc_texture priv1, dev)) of
               (None, dev1) \<Rightarrow> Inr (Alloc_returned None, priv1, dev1)
             | (Some t, dev1) \<Rightarrow>
                 Inr (Alloc_returned
                        (Some (new_memory (Some t) d GST_D3D11_MEMORY_TYPE_ARRAY
                                 (of_nat index_to_use))),
                      priv1\<lparr>alloc_texture := Some t\<rparr>, dev1)))
      else
        (case ID3D11Device_CreateTexture2D dev d of
           (None, dev1) \<Rightarrow> Inr (Alloc_returned None, priv, dev1)
         | (Some t, dev1) \<Rightarrow>
             Inr (Alloc_returned
                    (Some (new_memory (Some t) d GST_D3D11_MEMORY_TYPE_TEXTURE 0)),
                  priv, dev1)))"

text \<open>
  \<open>calculate_mem_size\<close> maps the texture once to learn the row pitch.  The size table
  \<open>gst_d3d11_dxgi_format_get_size\<close> is outside the source: \<open>get_size\<close> says whether it
  succeeds for a format, width, height and pitch.
\<close>

definition calculate_mem_size ::
  "(DXGI_FORMAT \<Rightarrow> guint \<Rightarrow> guint \<Rightarrow> guint \<Rightarrow> bool) \<Rightarrow> GstD3D11Device \<Rightarrow> pointer
     \<Rightarrow> D3D11_TEXTURE2D_DESC \<Rightarrow> D3D11_MAP \<Rightarrow> bool \<times> GstD3D11Device" where
  "calculate_mem_size get_size dev tex d map_type =
     (case ID3D11DeviceContext_Map dev tex 0 map_type of
        (None, dev1) \<Rightarrow> (False, dev1)
      | (Some (p, pitch), dev1) \<Rightarrow>
          (get_size (Format d) (Width d) (Height d) pitch,
           ID3D11DeviceContext_Unmap dev1 tex 0))"

definition gst_d3d11_allocator_alloc_staging ::
  "(DXGI_FORMAT \<Rightarrow> guint \<Rightarrow> guint \<Rightarrow> guint \<Rightarrow> bool) \<Rightarrow> GstD3D11Device
     \<Rightarrow> D3D11_TEXTURE2D_DESC \<Rightarrow> GstD3D11Memory option \<times> GstD3D11Device" where
  "gst_d3d11_allocator_alloc_staging get_size dev d =
     (case create_staging_texture dev d of
        (None, dev1) \<Rightarrow> (None, dev1)
      | (Some t, dev1) \<Rightarrow>
         (case calculate_mem_size get_size dev1 (Some t) d D3D11_MAP_READ of
            (False, dev2) \<Rightarrow> (None, dev2)
          | (True, dev2) \<Rightarrow>
              (Some (new_memory (Some t) d GST_D3D11_MEMORY_TYPE_STAGING 0), dev2)))"

text \<open>
  \<open>gst_d3d11_allocator_free\<close>, lines 554 to 561: the guard is on the allocator's bitmap.
  The releases of the views and textures that follow are not modelled.
\<close>

definition gst_d3d11_allocator_free ::
  "GstD3D11AllocatorPrivate \<Rightarrow> GstD3D11Memory \<Rightarrow> error + GstD3D11AllocatorPrivate" where
  "gst_d3d11_allocator_free priv dmem =
     (case array_in_use priv of
        None \<Rightarrow> Inr priv
      | Some arr \<Rightarrow>
          (if unat (subresource_index dmem) < length arr then
             Inr (priv\<lparr>array_in_use := Some (arr[unat (subresource_index dmem) := 0]),
                       num_array_textures_in_use := num_array_textures_in_use priv - 1,
                       cond_waiters := []\<rparr>)
           else Inl Out_of_bounds))"

definition gst_d3d11_allocator_set_flushing ::
  "GstD3D11AllocatorPrivate \<Rightarrow> bool \<Rightarrow> GstD3D11AllocatorPrivate" where
  "gst_d3d11_allocator_set_flushing priv fl = priv\<lparr>flushing := fl, cond_waiters := []\<rparr>"

section \<open>Allocation parameters and the pool's even-size correction\<close>

text \<open>
  \<open>GstVideoInfo\<close> and \<open>GstVideoFormatInfo\<close> belong to the video library, outside the source;
  only the fields read here are kept.  A C array of fixed size is a function from the
  index: \<open>w_sub\<close> and \<open>h_sub\<close> by component, \<open>params_desc\<close> and \<open>resource_format\<close> by plane
  (\<open>GST_VIDEO_MAX_PLANES\<close> entries; \<open>n_planes\<close> never exceeds it).  \<open>format\<close> is the number of
  the \<open>GstVideoFormat\<close>.
\<close>

record GstVideoFormatInfo =
  format :: nat
  n_planes :: nat
  w_sub :: "nat \<Rightarrow> nat"
  h_sub :: "nat \<Rightarrow> nat"

record GstVideoInfo =
  finfo :: GstVideoFormatInfo
  info_width :: gint
  info_height :: gint

record GstVideoAlignment =
  padding_top :: guint
  padding_bottom :: guint
  padding_left :: guint
  padding_right :: guint

record GstD3D11Format =
  dxgi_format :: DXGI_FORMAT
  resource_format :: "nat \<Rightarrow> DXGI_FORMAT"

record GstD3D11AllocationParams =
  info :: GstVideoInfo
  aligned_info :: GstVideoInfo
  d3d11_format :: GstD3D11Format
  params_desc :: "nat \<Rightarrow> D3D11_TEXTURE2D_DESC"
  params_flags :: guint

text \<open>The macros of the video and utility headers that the source uses.\<close>

definition GST_ROUND_UP_2 :: "32 word \<Rightarrow> 32 word" where
  "GST_ROUND_UP_2 num = (num + 1) AND NOT 1"

definition GST_VIDEO_SUB_SCALE :: "nat \<Rightarrow> gint \<Rightarrow> gint" where
  "GST_VIDEO_SUB_SCALE scale val = - (signed_drop_bit scale (- val))"

definition GST_VIDEO_INFO_COMP_WIDTH :: "GstVideoInfo \<Rightarrow> nat \<Rightarrow> gint" where
  "GST_VIDEO_INFO_COMP_WIDTH vi c = GST_VIDEO_SUB_SCALE (w_sub (finfo vi) c) (info_width vi)"

definition GST_VIDEO_INFO_COMP_HEIGHT :: "GstVideoInfo \<Rightarrow> nat \<Rightarrow> gint" where
  "GST_VIDEO_INFO_COMP_HEIGHT vi c = GST_VIDEO_SUB_SCALE (h_sub (finfo vi) c) (info_height vi)"

definition gst_video_alignment_reset :: GstVideoAlignment where
  "gst_video_alignment_reset =
     \<lparr>padding_top = 0, padding_bottom = 0, padding_left = 0, padding_right = 0\<rparr>"

text \<open>A descriptor of zeroed storage, as \<open>g_new0\<close> leaves it.\<close>

definition zero_desc :: D3D11_TEXTURE2D_DESC where
  "zero_desc =
     \<lparr>Width = 0, Height = 0, MipLevels = 0, ArraySize = 0, Format = 0,
      SampleDesc_Count = 0, SampleDesc_Quality = 0, Usage = D3D11_USAGE_DEFAULT,
      BindFlags = 0, CPUAccessFlags = 0, MiscFlags = 0\<rparr>"

definition new_desc :: "guint \<Rightarrow> guint \<Rightarrow> DXGI_FORMAT \<Rightarrow> guint \<Rightarrow> D3D11_TEXTURE2D_DESC" where
  "new_desc w h fmt bind_flags =
     zero_desc\<lparr>Width := w, Height := h, MipLevels := 1, ArraySize := 1, Format := fmt,
       SampleDesc_Count := 1, SampleDesc_Quality := 0, Usage := D3D11_USAGE_DEFAULT,
       BindFlags := bind_flags\<rparr>"

text \<open>
  \<open>gst_d3d11_allocation_params_new\<close>.  The device's format table
  \<open>gst_d3d11_device_format_from_gst\<close> is outside the source and is the parameter
  \<open>format_from_gst\<close>.
\<close>

definition gst_d3d11_allocation_params_new ::
  "(nat \<Rightarrow> GstD3D11Format option) \<Rightarrow> GstVideoInfo \<Rightarrow> guint \<Rightarrow> guint
     \<Rightarrow> error + GstD3D11AllocationParams option" where
  "gst_d3d11_allocation_params_new format_from_gst vi flags bind_flags =
     (case format_from_gst (format (finfo vi)) of
        None \<Rightarrow> Inr None
      | Some f \<Rightarrow>
          (if dxgi_format f = DXGI_FORMAT_UNKNOWN then
             (if \<exists>i \<in> set [0..<n_planes (finfo vi)]. resource_format f i = DXGI_FORMAT_UNKNOWN
              then Inl Assertion_failed
              else Inr (Some
                \<lparr>info = vi, aligned_info = vi, d3d11_format = f,
                 params_desc =
                   (\<lambda>i. if i < n_planes (finfo vi)
                        then new_desc (GST_VIDEO_INFO_COMP_WIDTH vi i)
                               (GST_VIDEO_INFO_COMP_HEIGHT vi i) (resource_format f i) bind_flags
                        else zero_desc),
                 params_flags = flags\<rparr>))
           else Inr (Some
             \<lparr>info = vi, aligned_info = vi, d3d11_format = f,
              params_desc =
                (\<lambda>i. if i = 0
                     then new_desc (info_width vi) (info_height vi) (dxgi_format f) bind_flags
                     else zero_desc),
              params_flags = flags\<rparr>)))"

text \<open>
  \<open>gst_d3d11_allocation_params_alignment\<close>.  \<open>gst_video_info_set_format\<close> belongs to the
  video library and is the parameter \<open>set_format\<close>: from a format number, a width and a
  height it gives the new video info, or \<open>None\<close> when it fails.
\<close>

definition gst_d3d11_allocation_params_alignment ::
  "(nat \<Rightarrow> guint \<Rightarrow> guint \<Rightarrow> GstVideoInfo option) \<Rightarrow> GstD3D11AllocationParams
     \<Rightarrow> GstVideoAlignment \<Rightarrow> bool \<times> GstD3D11AllocationParams" where
  "gst_d3d11_allocation_params_alignment set_format params align =
     (let padding_width = padding_left align + padding_right align;
          padding_height = padding_top align + padding_bottom align;
          vi = info params
      in case set_format (format (finfo vi)) (info_width vi + padding_width)
                (info_height vi + padding_height) of
           None \<Rightarrow> (False, params)
         | Some new_info \<Rightarrow>
             (True,
              params\<lparr>aligned_info := new_info,
                     params_desc :=
                       fold (\<lambda>i ds. ds(i := (ds i)\<lparr>Width := GST_VIDEO_INFO_COMP_WIDTH new_info i,
                                                  Height := GST_VIDEO_INFO_COMP_HEIGHT new_info i\<rparr>))
                         [0..<n_planes (finfo vi)] (params_desc params)\<rparr>))"

text \<open>
  Lines 253 to 272 of \<open>gst_d3d11_buffer_pool_set_config\<close> (gstd3d11bufferpool.c), on the
  allocation parameters of the pool: the alignment it builds for an odd size, and the
  parameters it leaves.  The result of the alignment call is not looked at.
\<close>

definition set_config_alignment :: "D3D11_TEXTURE2D_DESC \<Rightarrow> GstVideoAlignment" where
  "set_config_alignment d0 =
     (let width = GST_ROUND_UP_2 (Width d0);
          height = GST_ROUND_UP_2 (Height d0)
      in gst_video_alignment_reset\<lparr>padding_right := width - Width d0,
           padding_bottom := height - Height d0\<rparr>)"

definition set_config_fix_resolution ::
  "(nat \<Rightarrow> guint \<Rightarrow> guint \<Rightarrow> GstVideoInfo option) \<Rightarrow> GstD3D11AllocationParams
     \<Rightarrow> GstD3D11AllocationParams" where
  "set_config_fix_resolution set_format params =
     (let d0 = params_desc params 0
      in if Format d0 = DXGI_FORMAT_NV12 \<or> Format d0 = DXGI_FORMAT_P010 \<or>
            Format d0 = DXGI_FORMAT_P016
         then
           (if Width d0 mod 2 \<noteq> 0 \<or> Height d0 mod 2 \<noteq> 0
            then snd (gst_d3d11_allocation_params_alignment set_format params
                        (set_config_alignment d0))
            else params)
         else params)"

section \<open>Concrete inputs\<close>

text \<open>
  A descriptor, three devices and a memory object as \<open>gst_d3d11_allocator_alloc\<close>
  returns it without the array flag, on which the theorems are instantiated.  The first
  device succeeds in every call, the second fails every \<open>Map\<close>, the third fails every
  \<open>CreateTexture2D\<close>.
\<close>

definition example_desc :: D3D11_TEXTURE2D_DESC where
  "example_desc =
     \<lparr>Width = 640, Height = 480, MipLevels = 1, ArraySize = 2, Format = DXGI_FORMAT_NV12,
      SampleDesc_Count = 1, SampleDesc_Quality = 0, Usage = D3D11_USAGE_DEFAULT,
      BindFlags = 0, CPUAccessFlags = 0, MiscFlags = 0\<rparr>"

definition working_device :: GstD3D11Device where
  "working_device =
     \<lparr>create_texture_result = (\<lambda>h d. Some (Suc (length h))),
      map_result = (\<lambda>h r t. Some (4096, 1024)),
      calls = []\<rparr>"

definition map_failing_device :: GstD3D11Device where
  "map_failing_device =
     \<lparr>create_texture_result = (\<lambda>h d. Some (Suc (length h))),
      map_result = (\<lambda>h r t. None),
      calls = []\<rparr>"

definition create_failing_device :: GstD3D11Device where
  "create_failing_device =
     \<lparr>create_texture_result = (\<lambda>h d. None),
      map_result = (\<lambda>h r t. Some (4096, 1024)),
      calls = []\<rparr>"

definition example_memory :: GstD3D11Memory where
  "example_memory = new_memory (Some 7) example_desc GST_D3D11_MEMORY_TYPE_TEXTURE 0"

text \<open>A sequence of map and unmap calls on one object, each on the state the last left.\<close>

datatype mem_call = Do_map guint | Do_unmap guint

fun run_mem_calls ::
  "mem_call list \<Rightarrow> GstD3D11Memory \<Rightarrow> GstD3D11Device
     \<Rightarrow> error + (GstD3D11Memory \<times> GstD3D11Device)" where
  "run_mem_calls [] dmem dev = Inr (dmem, dev)"
| "run_mem_calls (Do_map fl # cs) dmem dev =
     (case gst_d3d11_memory_map dev dmem fl of
        Inl e \<Rightarrow> Inl e
      | Inr (p, dmem1, dev1) \<Rightarrow> run_mem_calls cs dmem1 dev1)"
| "run_mem_calls (Do_unmap fl # cs) dmem dev =
     (case gst_d3d11_memory_unmap_full dev dmem fl of
        (dmem1, dev1) \<Rightarrow> run_mem_calls cs dmem1 dev1)"

text \<open>The native map and unmap calls of a device history.\<close>

fun is_map_or_unmap :: "d3d11_call \<Rightarrow> bool" where
  "is_map_or_unmap (Call_Map r s t) = True"
| "is_map_or_unmap (Call_Unmap r s) = True"
| "is_map_or_unmap c = False"

definition hardware_maps :: "d3d11_call list \<Rightarrow> d3d11_call list" where
  "hardware_maps cs = filter is_map_or_unmap cs"

text \<open>
  The allocator as two array allocations with \<open>example_desc\<close> leave a new one: both
  slots are in use and the parent texture exists.
\<close>

definition full_allocator :: GstD3D11AllocatorPrivate where
  "full_allocator =
     \<lparr>alloc_texture = Some 1, array_in_use = Some [1, 1], decoder_output_view_array = None,
      processor_input_view_array = Some [None, None], num_array_textures_in_use = 2,
      array_texture_size = 2, flushing = False, cond_waiters = []\<rparr>"

text \<open>
  Calls on one allocator from several threads, in the order in which they take its lock.
  \<open>Try_alloc t d\<close> is one pass of thread \<open>t\<close> from \<open>do_again\<close>: on entry to
  \<open>gst_d3d11_allocator_alloc\<close>, or on waking from \<open>g_cond_wait\<close> after a broadcast or
  spuriously, so the thread is no longer among the waiters when the pass starts.
\<close>

datatype allocator_call =
    Try_alloc nat D3D11_TEXTURE2D_DESC
  | Free GstD3D11Memory
  | Set_flushing bool

fun allocator_step ::
  "allocator_call \<Rightarrow> GstD3D11AllocatorPrivate \<Rightarrow> error + GstD3D11AllocatorPrivate" where
  "allocator_step (Try_alloc t d) priv =
     (case alloc_array_slot t d (priv\<lparr>cond_waiters := removeAll t (cond_waiters priv)\<rparr>) of
        Inl e \<Rightarrow> Inl e
      | Inr (r, priv1) \<Rightarrow> Inr priv1)"
| "allocator_step (Free dmem) priv = gst_d3d11_allocator_free priv dmem"
| "allocator_step (Set_flushing fl) priv = Inr (gst_d3d11_allocator_set_flushing priv fl)"

fun allocator_run ::
  "allocator_call list \<Rightarrow> GstD3D11AllocatorPrivate \<Rightarrow> error + GstD3D11AllocatorPrivate" where
  "allocator_run [] priv = Inr priv"
| "allocator_run (c # cs) priv =
     (case allocator_step c priv of
        Inl e \<Rightarrow> Inl e
      | Inr priv1 \<Rightarrow> allocator_run cs priv1)"

text \<open>
  The format info of NV12 (number 23: two planes, chroma subsampled by 2 both ways), a
  format table of the device that knows NV12 only, and \<open>gst_video_info_set_format\<close> as it
  behaves on NV12 with sizes that fit a \<open>gint\<close>.
\<close>

definition nv12_finfo :: GstVideoFormatInfo where
  "nv12_finfo =
     \<lparr>format = 23, n_planes = 2,
      w_sub = (\<lambda>c. if c = 1 \<or> c = 2 then 1 else 0),
      h_sub = (\<lambda>c. if c = 1 \<or> c = 2 then 1 else 0)\<rparr>"

definition nv12_format_from_gst :: "nat \<Rightarrow> GstD3D11Format option" where
  "nv12_format_from_gst f =
     (if f = 23
      then Some \<lparr>dxgi_format = DXGI_FORMAT_NV12, resource_format = (\<lambda>i. DXGI_FORMAT_UNKNOWN)\<rparr>
      else None)"

definition nv12_set_format :: "nat \<Rightarrow> guint \<Rightarrow> guint \<Rightarrow> GstVideoInfo option" where
  "nv12_set_format f w h =
     (if f = 23 \<and> w \<le> 0x7FFFFFFF \<and> h \<le> 0x7FFFFFFF
      then Some \<lparr>finfo = nv12_finfo, info_width = w, info_height = h\<rparr>
      else None)"

definition nv12_info :: "gint \<Rightarrow> gint \<Rightarrow> GstVideoInfo" where
  "nv12_info w h = \<lparr>finfo = nv12_finfo, info_width = w, info_height = h\<rparr>"

text \<open>
  The parameters that \<open>gst_d3d11_allocation_params_new\<close> builds for NV12 of a given size
  with no flags.
\<close>

definition nv12_params :: "gint \<Rightarrow> gint \<Rightarrow> GstD3D11AllocationParams" where
  "nv12_params w h =
     \<lparr>info = nv12_info w h, aligned_info = nv12_info w h,
      d3d11_format = \<lparr>dxgi_format = DXGI_FORMAT_NV12, resource_format = (\<lambda>i. DXGI_FORMAT_UNKNOWN)\<rparr>,
      params_desc = (\<lambda>i. if i = 0 then new_desc w h DXGI_FORMAT_NV12 0 else zero_desc),
      params_flags = 0\<rparr>"

section \<open>Flag bits\<close>

lemma flag_is_set_iff_bit:
  "GST_MINI_OBJECT_FLAG_IS_SET fl (push_bit n 1) = bit fl n"
  unfolding GST_MINI_OBJECT_FLAG_IS_SET_def
  by (simp add: and_exp_eq_0_iff_not_bit)

lemma flag_set_bit:
  "bit (GST_MINI_OBJECT_FLAG_SET fl (push_bit n 1)) k = (bit fl k \<or> (k = n \<and> n < 32))"
  unfolding GST_MINI_OBJECT_FLAG_SET_def
  by (auto simp add: bit_simps)

lemma flag_unset_bit:
  "bit (GST_MINI_OBJECT_FLAG_UNSET fl (push_bit n 1)) k = (bit fl k \<and> k \<noteq> n)"
  unfolding GST_MINI_OBJECT_FLAG_UNSET_def
  by (auto simp add: bit_simps dest: bit_imp_le_length)

lemma need_upload_bit:
  "GST_MINI_OBJECT_FLAG_IS_SET fl GST_D3D11_MEMORY_TRANSFER_NEED_UPLOAD = bit fl 21"
  "bit (GST_MINI_OBJECT_FLAG_SET fl GST_D3D11_MEMORY_TRANSFER_NEED_UPLOAD) k = (bit fl k \<or> k = 21)"
  "bit (GST_MINI_OBJECT_FLAG_UNSET fl GST_D3D11_MEMORY_TRANSFER_NEED_UPLOAD) k = (bit fl k \<and> k \<noteq> 21)"
  unfolding GST_D3D11_MEMORY_TRANSFER_NEED_UPLOAD_def
  by (simp_all only: flag_is_set_iff_bit flag_set_bit flag_unset_bit) simp_all

lemma need_download_bit:
  "GST_MINI_OBJECT_FLAG_IS_SET fl GST_D3D11_MEMORY_TRANSFER_NEED_DOWNLOAD = bit fl 20"
  "bit (GST_MINI_OBJECT_FLAG_SET fl GST_D3D11_MEMORY_TRANSFER_NEED_DOWNLOAD) k = (bit fl k \<or> k = 20)"
  "bit (GST_MINI_OBJECT_FLAG_UNSET fl GST_D3D11_MEMORY_TRANSFER_NEED_DOWNLOAD) k = (bit fl k \<and> k \<noteq> 20)"
  unfolding GST_D3D11_MEMORY_TRANSFER_NEED_DOWNLOAD_def
  by (simp_all only: flag_is_set_iff_bit flag_set_bit flag_unset_bit) simp_all

lemmas flag_bits = need_upload_bit need_download_bit

lemmas map_flag_defs = GST_MAP_READ_def GST_MAP_WRITE_def GST_MAP_READWRITE_def GST_MAP_D3D11_def

lemmas device_defs = ID3D11Device_CreateTexture2D_def
  ID3D11DeviceContext_CopySubresourceRegion_def ID3D11DeviceContext_Map_def
  ID3D11DeviceContext_Unmap_def create_staging_texture_def

lemmas memory_defs = gst_d3d11_memory_map_def memory_map_d3d11_def memory_map_first_def
  memory_map_finish_def map_cpu_access_data_def gst_d3d11_memory_unmap_full_def
  unmap_cpu_access_data_def gst_map_flags_to_d3d11_def gst_d3d11_memory_map_staging_def

lemmas example_defs = example_desc_def working_device_def map_failing_device_def
  create_failing_device_def example_memory_def new_memory_def GST_MINI_OBJECT_FLAG_LOCKABLE_def

section \<open>The mapping protocol\<close>

text \<open>
  Claim C1.  On an object that is not of the staging type, a map with \<open>GST_MAP_D3D11\<close>
  returns the texture handle.  The pending-transfer flag that a CPU write leaves set is
  \<open>GST_D3D11_MEMORY_TRANSFER_NEED_UPLOAD\<close>: the call issues exactly one
  \<open>CopySubresourceRegion\<close> from the staging texture into the object's subresource of the
  GPU texture when a staging texture exists and that flag is set, and no native call
  otherwise; the flag is clear in the object it leaves, which differs from the old one in
  the flag word only.
\<close>

theorem map_d3d11_copies_pending_upload:
  assumes "mem_type dmem \<noteq> GST_D3D11_MEMORY_TYPE_STAGING"
    and "flags AND GST_MAP_D3D11 = GST_MAP_D3D11"
    and "texture dmem \<noteq> None"
  shows "\<exists>dmem' dev'.
      gst_d3d11_memory_map dev dmem flags = Inr (texture dmem, dmem', dev') \<and>
      calls dev' = calls dev @
        (if staging dmem \<noteq> None \<and>
            GST_MINI_OBJECT_FLAG_IS_SET (mini_object_flags dmem)
              GST_D3D11_MEMORY_TRANSFER_NEED_UPLOAD
         then [Call_CopySubresourceRegion (texture dmem) (subresource_index dmem)
                 (staging dmem) 0]
         else []) \<and>
      \<not> GST_MINI_OBJECT_FLAG_IS_SET (mini_object_flags dmem')
          GST_D3D11_MEMORY_TRANSFER_NEED_UPLOAD \<and>
      dmem' = dmem\<lparr>mini_object_flags := mini_object_flags dmem'\<rparr>"
  using assms
  by (simp add: gst_d3d11_memory_map_def memory_map_d3d11_def Let_def
      ID3D11DeviceContext_CopySubresourceRegion_def flag_bits)

text \<open>
  Claim C7, amended.  On an object that is not of the staging type, an unmap released
  under CPU access with write intent sets \<open>GST_D3D11_MEMORY_TRANSFER_NEED_UPLOAD\<close>, leaves
  \<open>GST_D3D11_MEMORY_TRANSFER_NEED_DOWNLOAD\<close> as it was, decrements the map counter, and
  issues the native \<open>Unmap\<close> of the staging texture exactly when the decremented counter
  is not positive, which for a counter that was at least 1 is when it reaches 0.
\<close>

theorem unmap_cpu_write_sets_need_upload:
  assumes "mem_type dmem \<noteq> GST_D3D11_MEMORY_TYPE_STAGING"
    and "info_flags AND GST_MAP_D3D11 \<noteq> GST_MAP_D3D11"
    and "info_flags AND GST_MAP_WRITE \<noteq> 0"
  shows "\<exists>dmem' dev'.
      gst_d3d11_memory_unmap_full dev dmem info_flags = (dmem', dev') \<and>
      GST_MINI_OBJECT_FLAG_IS_SET (mini_object_flags dmem')
        GST_D3D11_MEMORY_TRANSFER_NEED_UPLOAD \<and>
      GST_MINI_OBJECT_FLAG_IS_SET (mini_object_flags dmem')
        GST_D3D11_MEMORY_TRANSFER_NEED_DOWNLOAD =
      GST_MINI_OBJECT_FLAG_IS_SET (mini_object_flags dmem)
        GST_D3D11_MEMORY_TRANSFER_NEED_DOWNLOAD \<and>
      cpu_map_count dmem' = cpu_map_count dmem - 1 \<and>
      calls dev' = calls dev @
        (if 0 < sint (cpu_map_count dmem - 1) then [] else [Call_Unmap (staging dmem) 0])"
  using assms
  by (simp add: gst_d3d11_memory_unmap_full_def unmap_cpu_access_data_def Let_def
      ID3D11DeviceContext_Unmap_def flag_bits)


text \<open>
  The theorem on the object left by a CPU map with write intent and its unmap: the
  staging texture exists, the flag is set, and the GPU-direct map copies and clears.
\<close>

theorem map_d3d11_copies_pending_upload_witness:
  "case run_mem_calls [Do_map GST_MAP_WRITE, Do_unmap GST_MAP_WRITE] example_memory
          working_device of
     Inl e \<Rightarrow> False
   | Inr (dmem, dev) \<Rightarrow>
       staging dmem = Some 1 \<and>
       GST_MINI_OBJECT_FLAG_IS_SET (mini_object_flags dmem)
         GST_D3D11_MEMORY_TRANSFER_NEED_UPLOAD \<and>
       (\<exists>dmem' dev'.
          gst_d3d11_memory_map dev dmem GST_MAP_D3D11 = Inr (Some 7, dmem', dev') \<and>
          calls dev' = calls dev @ [Call_CopySubresourceRegion (Some 7) 0 (Some 1) 0] \<and>
          \<not> GST_MINI_OBJECT_FLAG_IS_SET (mini_object_flags dmem')
              GST_D3D11_MEMORY_TRANSFER_NEED_UPLOAD)"
proof -
  have run: "run_mem_calls [Do_map GST_MAP_WRITE, Do_unmap GST_MAP_WRITE] example_memory
      working_device =
    Inr (example_memory\<lparr>mini_object_flags := 2097153,
           staging := Some 1, map_pData := Some 4096, map_RowPitch := 1024\<rparr>,
         working_device\<lparr>calls :=
           [Call_CreateTexture2D (staging_desc example_desc),
            Call_CopySubresourceRegion (Some 1) 0 (Some 7) 0,
            Call_Map (Some 1) 0 D3D11_MAP_WRITE, Call_Unmap (Some 1) 0]\<rparr>)"
    by (simp add: memory_defs device_defs example_defs map_flag_defs Let_def
        GST_MINI_OBJECT_FLAG_IS_SET_def GST_MINI_OBJECT_FLAG_SET_def
        GST_MINI_OBJECT_FLAG_UNSET_def GST_D3D11_MEMORY_TRANSFER_NEED_UPLOAD_def
        GST_D3D11_MEMORY_TRANSFER_NEED_DOWNLOAD_def)
  let ?dmem = "example_memory\<lparr>mini_object_flags := 2097153,
           staging := Some 1, map_pData := Some 4096, map_RowPitch := 1024\<rparr>"
  let ?dev = "working_device\<lparr>calls :=
           [Call_CreateTexture2D (staging_desc example_desc),
            Call_CopySubresourceRegion (Some 1) 0 (Some 7) 0,
            Call_Map (Some 1) 0 D3D11_MAP_WRITE, Call_Unmap (Some 1) 0]\<rparr>"
  have set: "GST_MINI_OBJECT_FLAG_IS_SET (mini_object_flags ?dmem)
      GST_D3D11_MEMORY_TRANSFER_NEED_UPLOAD"
    by (simp add: GST_MINI_OBJECT_FLAG_IS_SET_def GST_D3D11_MEMORY_TRANSFER_NEED_UPLOAD_def)
  have "mem_type ?dmem \<noteq> GST_D3D11_MEMORY_TYPE_STAGING"
    and "GST_MAP_D3D11 AND GST_MAP_D3D11 = GST_MAP_D3D11"
    and "texture ?dmem \<noteq> None"
    by (simp_all add: example_defs)
  from map_d3d11_copies_pending_upload [OF this, of ?dev] set obtain dmem' dev' where
    "gst_d3d11_memory_map ?dev ?dmem GST_MAP_D3D11 = Inr (Some 7, dmem', dev')"
    "calls dev' = calls ?dev @ [Call_CopySubresourceRegion (Some 7) 0 (Some 1) 0]"
    "\<not> GST_MINI_OBJECT_FLAG_IS_SET (mini_object_flags dmem')
        GST_D3D11_MEMORY_TRANSFER_NEED_UPLOAD"
    by (auto simp add: example_defs)
  with set show ?thesis
    unfolding run by (simp add: example_defs)
qed

text \<open>
  Claim C7 as stated fails.  An object is mapped for CPU write, then mapped and unmapped
  GPU-direct with write intent, which sets \<open>GST_D3D11_MEMORY_TRANSFER_NEED_DOWNLOAD\<close>.
  The CPU unmap with write intent that follows leaves that flag set.
\<close>

theorem unmap_cpu_write_keeps_need_download:
  "case run_mem_calls
          [Do_map GST_MAP_WRITE, Do_map (GST_MAP_D3D11 OR GST_MAP_WRITE),
           Do_unmap (GST_MAP_D3D11 OR GST_MAP_WRITE)] example_memory working_device of
     Inl e \<Rightarrow> False
   | Inr (dmem, dev) \<Rightarrow>
       mem_type dmem \<noteq> GST_D3D11_MEMORY_TYPE_STAGING \<and> cpu_map_count dmem = 1 \<and>
       GST_MINI_OBJECT_FLAG_IS_SET
         (mini_object_flags (fst (gst_d3d11_memory_unmap_full dev dmem GST_MAP_WRITE)))
         GST_D3D11_MEMORY_TRANSFER_NEED_DOWNLOAD"
  by (simp add: memory_defs device_defs example_defs map_flag_defs Let_def
        GST_MINI_OBJECT_FLAG_IS_SET_def GST_MINI_OBJECT_FLAG_SET_def
        GST_MINI_OBJECT_FLAG_UNSET_def GST_D3D11_MEMORY_TRANSFER_NEED_UPLOAD_def
        GST_D3D11_MEMORY_TRANSFER_NEED_DOWNLOAD_def)

theorem unmap_cpu_write_sets_need_upload_witness:
  "\<exists>dmem' dev'.
      gst_d3d11_memory_unmap_full working_device (example_memory\<lparr>cpu_map_count := 1\<rparr>)
        GST_MAP_WRITE = (dmem', dev') \<and>
      GST_MINI_OBJECT_FLAG_IS_SET (mini_object_flags dmem')
        GST_D3D11_MEMORY_TRANSFER_NEED_UPLOAD \<and>
      \<not> GST_MINI_OBJECT_FLAG_IS_SET (mini_object_flags dmem')
        GST_D3D11_MEMORY_TRANSFER_NEED_DOWNLOAD \<and>
      cpu_map_count dmem' = 0 \<and>
      calls dev' = [Call_Unmap None 0]"
  using unmap_cpu_write_sets_need_upload [of "example_memory\<lparr>cpu_map_count := 1\<rparr>" GST_MAP_WRITE working_device]
  by (simp add: example_defs map_flag_defs flag_bits)

text \<open>
  The steps of a nested CPU mapping, one lemma for each: the map that takes the counter
  from 0, a map at a counter that is not 0, and an unmap.
\<close>

lemma first_cpu_map:
  assumes "mem_type m0 \<noteq> GST_D3D11_MEMORY_TYPE_STAGING"
    and "f AND GST_MAP_D3D11 \<noteq> GST_MAP_D3D11"
    and "cpu_map_count m0 = 0"
    and "gst_d3d11_memory_map d0 m0 f = Inr (Some p, m1, d1)"
  shows "\<exists>pre t. calls d1 = calls d0 @ pre @ [Call_Map (staging m1) 0 t] \<and>
      hardware_maps pre = [] \<and> cpu_map_count m1 = 1 \<and>
      mem_type m1 = mem_type m0 \<and> map_pData m1 = Some p"
  using assms
  by (auto simp add: gst_d3d11_memory_map_def memory_map_first_def memory_map_finish_def
      map_cpu_access_data_def device_defs Let_def hardware_maps_def
      split: if_splits sum.splits prod.splits option.splits bool.splits)

lemma nested_cpu_map:
  assumes "mem_type m1 \<noteq> GST_D3D11_MEMORY_TYPE_STAGING"
    and "f AND GST_MAP_D3D11 \<noteq> GST_MAP_D3D11"
    and "cpu_map_count m1 \<noteq> 0"
  shows "gst_d3d11_memory_map d1 m1 f =
      Inr (map_pData m1, memory_map_finish m1 f, d1)"
  using assms
  by (simp add: gst_d3d11_memory_map_def memory_map_finish_def Let_def)

lemma memory_map_finish_fields:
  "cpu_map_count (memory_map_finish m f) = cpu_map_count m + 1"
  "mem_type (memory_map_finish m f) = mem_type m"
  "staging (memory_map_finish m f) = staging m"
  "map_pData (memory_map_finish m f) = map_pData m"
  by (simp_all add: memory_map_finish_def Let_def)

lemma cpu_unmap:
  assumes "g AND GST_MAP_D3D11 \<noteq> GST_MAP_D3D11"
    and "gst_d3d11_memory_unmap_full d m g = (m', d')"
  shows "cpu_map_count m' = cpu_map_count m - 1 \<and> mem_type m' = mem_type m \<and>
      staging m' = staging m \<and>
      calls d' = calls d @
        (if 0 < sint (cpu_map_count m - 1) then []
         else [Call_Unmap (if mem_type m = GST_D3D11_MEMORY_TYPE_STAGING then texture m
                           else staging m) 0])"
  using assms
  by (auto simp add: gst_d3d11_memory_unmap_full_def unmap_cpu_access_data_def Let_def
      ID3D11DeviceContext_Unmap_def split: if_splits)

text \<open>
  Claim C6.  On an object that is not of the staging type and whose counter is 0, two
  CPU-access maps that succeed, followed by two CPU-access unmaps, issue exactly one
  native \<open>Map\<close> of the staging texture, in the first map, and exactly one native
  \<open>Unmap\<close> of it, in the last unmap, in that order.  The second map and the first unmap
  issue no native call: the counter goes 1, 2, 1, 0.
\<close>

theorem nested_cpu_maps_one_hardware_map:
  assumes ns: "mem_type m0 \<noteq> GST_D3D11_MEMORY_TYPE_STAGING"
    and c0: "cpu_map_count m0 = 0"
    and f1: "f1 AND GST_MAP_D3D11 \<noteq> GST_MAP_D3D11"
    and f2: "f2 AND GST_MAP_D3D11 \<noteq> GST_MAP_D3D11"
    and map1: "gst_d3d11_memory_map d0 m0 f1 = Inr (Some p1, m1, d1)"
    and map2: "gst_d3d11_memory_map d1 m1 f2 = Inr (Some p2, m2, d2)"
    and unmap1: "gst_d3d11_memory_unmap_full d2 m2 f2 = (m3, d3)"
    and unmap2: "gst_d3d11_memory_unmap_full d3 m3 f1 = (m4, d4)"
  shows "\<exists>pre t.
      calls d1 = calls d0 @ pre @ [Call_Map (staging m1) 0 t] \<and> hardware_maps pre = [] \<and>
      calls d2 = calls d1 \<and> calls d3 = calls d2 \<and>
      calls d4 = calls d3 @ [Call_Unmap (staging m1) 0] \<and>
      hardware_maps (calls d4) =
        hardware_maps (calls d0) @ [Call_Map (staging m1) 0 t, Call_Unmap (staging m1) 0] \<and>
      cpu_map_count m1 = 1 \<and> cpu_map_count m2 = 2 \<and> cpu_map_count m3 = 1 \<and>
      cpu_map_count m4 = 0 \<and> p2 = p1"
proof -
  from first_cpu_map [OF ns f1 c0 map1] obtain pre t where
    d1: "calls d1 = calls d0 @ pre @ [Call_Map (staging m1) 0 t]"
    and pre: "hardware_maps pre = []"
    and c1: "cpu_map_count m1 = 1" and t1: "mem_type m1 = mem_type m0"
    and p1: "map_pData m1 = Some p1"
    by blast
  from t1 ns have ns1: "mem_type m1 \<noteq> GST_D3D11_MEMORY_TYPE_STAGING" by simp
  from c1 have "cpu_map_count m1 \<noteq> 0" by simp
  from nested_cpu_map [OF ns1 f2 this, of d1] map2
  have m2: "m2 = memory_map_finish m1 f2" and d2: "d2 = d1" and p2: "p2 = p1"
    using p1 by simp_all
  from m2 c1 have c2: "cpu_map_count m2 = 2" and s2: "staging m2 = staging m1"
    and ns2: "mem_type m2 \<noteq> GST_D3D11_MEMORY_TYPE_STAGING"
    using ns1 by (simp_all add: memory_map_finish_fields)
  from cpu_unmap [OF f2 unmap1] c2 s2 ns2
  have c3: "cpu_map_count m3 = 1" and s3: "staging m3 = staging m1"
    and ns3: "mem_type m3 \<noteq> GST_D3D11_MEMORY_TYPE_STAGING" and d3: "calls d3 = calls d2"
    by simp_all
  from cpu_unmap [OF f1 unmap2] c3 s3 ns3
  have c4: "cpu_map_count m4 = 0" and d4: "calls d4 = calls d3 @ [Call_Unmap (staging m1) 0]"
    by simp_all
  have "hardware_maps (calls d4) =
      hardware_maps (calls d0) @ [Call_Map (staging m1) 0 t, Call_Unmap (staging m1) 0]"
    using pre by (simp add: d4 d3 d2 d1 hardware_maps_def)
  with d1 pre d2 d3 d4 c1 c2 c3 c4 p2 show ?thesis by blast
qed

text \<open>
  The theorem on a new object and a device whose calls succeed: a read map, a write map
  and the two unmaps.
\<close>

theorem nested_cpu_maps_one_hardware_map_witness:
  "\<exists>m1 d1 m2 d2 m3 d3 m4 d4.
     gst_d3d11_memory_map working_device example_memory GST_MAP_READ = Inr (Some 4096, m1, d1) \<and>
     gst_d3d11_memory_map d1 m1 GST_MAP_WRITE = Inr (Some 4096, m2, d2) \<and>
     gst_d3d11_memory_unmap_full d2 m2 GST_MAP_WRITE = (m3, d3) \<and>
     gst_d3d11_memory_unmap_full d3 m3 GST_MAP_READ = (m4, d4) \<and>
     (\<exists>t. hardware_maps (calls d4) = [Call_Map (Some 1) 0 t, Call_Unmap (Some 1) 0]) \<and>
     cpu_map_count m2 = 2 \<and> cpu_map_count m4 = 0"
proof -
  obtain m1 d1 where map1:
    "gst_d3d11_memory_map working_device example_memory GST_MAP_READ = Inr (Some 4096, m1, d1)"
    and s1: "staging m1 = Some 1"
    by (simp add: memory_defs device_defs example_defs map_flag_defs Let_def
        GST_MINI_OBJECT_FLAG_IS_SET_def GST_MINI_OBJECT_FLAG_SET_def
        GST_MINI_OBJECT_FLAG_UNSET_def GST_D3D11_MEMORY_TRANSFER_NEED_UPLOAD_def
        GST_D3D11_MEMORY_TRANSFER_NEED_DOWNLOAD_def)
  have ns: "mem_type example_memory \<noteq> GST_D3D11_MEMORY_TYPE_STAGING"
    and c0: "cpu_map_count example_memory = 0"
    and f1: "GST_MAP_READ AND GST_MAP_D3D11 \<noteq> GST_MAP_D3D11"
    and f2: "GST_MAP_WRITE AND GST_MAP_D3D11 \<noteq> GST_MAP_D3D11"
    by (simp_all add: example_defs map_flag_defs)
  from first_cpu_map [OF ns f1 c0 map1] have ns1: "mem_type m1 \<noteq> GST_D3D11_MEMORY_TYPE_STAGING"
    and c1: "cpu_map_count m1 \<noteq> 0" and p1: "map_pData m1 = Some 4096"
    using ns by auto
  have map2: "gst_d3d11_memory_map d1 m1 GST_MAP_WRITE =
      Inr (Some 4096, memory_map_finish m1 GST_MAP_WRITE, d1)"
    using nested_cpu_map [OF ns1 f2 c1, of d1] p1 by simp
  obtain m3 d3 where unmap1:
    "gst_d3d11_memory_unmap_full d1 (memory_map_finish m1 GST_MAP_WRITE) GST_MAP_WRITE = (m3, d3)"
    by (cases "gst_d3d11_memory_unmap_full d1 (memory_map_finish m1 GST_MAP_WRITE) GST_MAP_WRITE")
  obtain m4 d4 where unmap2: "gst_d3d11_memory_unmap_full d3 m3 GST_MAP_READ = (m4, d4)"
    by (cases "gst_d3d11_memory_unmap_full d3 m3 GST_MAP_READ")
  from nested_cpu_maps_one_hardware_map [OF ns c0 f1 f2 map1 map2 unmap1 unmap2] s1
  obtain t where hw: "hardware_maps (calls d4) =
      hardware_maps (calls working_device) @ [Call_Map (Some 1) 0 t, Call_Unmap (Some 1) 0]"
    and cs: "cpu_map_count (memory_map_finish m1 GST_MAP_WRITE) = 2" "cpu_map_count m4 = 0"
    by auto
  from hw have "\<exists>t. hardware_maps (calls d4) = [Call_Map (Some 1) 0 t, Call_Unmap (Some 1) 0]"
    by (simp add: working_device_def hardware_maps_def)
  with map1 map2 unmap1 unmap2 cs show ?thesis by blast
qed





text \<open>
  Claim C10.  The share operation that \<open>gst_d3d11_allocator_init\<close> installs returns NULL
  for every object, offset and size, and leaves the object as it was.
\<close>

theorem memory_share_returns_null: "mem_share (fst gst_d3d11_allocator_init) mem offset sz = (None, mem)"
  by (simp add: gst_d3d11_allocator_init_def gst_d3d11_memory_share_def)

section \<open>Slot allocation\<close>

text \<open>
  The scan breaks at \<open>k\<close> exactly when \<open>k\<close> is the first index from \<open>i\<close> whose entry
  is 0, inside the bounds.
\<close>

lemma scan_in_use_Some:
  "scan_in_use arr n i = Inr (Some k) \<Longrightarrow>
     i \<le> k \<and> k < n \<and> k < length arr \<and> arr ! k = 0 \<and> (\<forall>j. i \<le> j \<and> j < k \<longrightarrow> arr ! j \<noteq> 0)"
proof (induction arr n i rule: scan_in_use.induct)
  case (1 arr n i)
  show ?case
  proof (cases "i < n \<and> i < length arr \<and> arr ! i \<noteq> 0")
    case True
    with "1.prems" have "scan_in_use arr n (Suc i) = Inr (Some k)"
      by (simp add: scan_in_use.simps [of arr n i])
    with "1.IH" True have IH: "Suc i \<le> k \<and> k < n \<and> k < length arr \<and> arr ! k = 0 \<and>
        (\<forall>j. Suc i \<le> j \<and> j < k \<longrightarrow> arr ! j \<noteq> 0)"
      by simp
    have "arr ! j \<noteq> 0" if "i \<le> j" "j < k" for j
      using that IH True by (cases "j = i") auto
    with IH show ?thesis by auto
  next
    case False
    with "1.prems" show ?thesis
      by (auto simp add: scan_in_use.simps [of arr n i] split: if_splits)
  qed
qed

lemma scan_in_use_first_free:
  "i \<le> k \<Longrightarrow> k < n \<Longrightarrow> k < length arr \<Longrightarrow> arr ! k = 0 \<Longrightarrow>
     (\<forall>j. i \<le> j \<and> j < k \<longrightarrow> arr ! j \<noteq> 0) \<Longrightarrow> scan_in_use arr n i = Inr (Some k)"
proof (induction arr n i rule: scan_in_use.induct)
  case (1 arr n i)
  show ?case
  proof (cases "i = k")
    case True
    with "1.prems" show ?thesis by (simp add: scan_in_use.simps [of arr n k])
  next
    case False
    with "1.prems" have lt: "i < k" and nz: "arr ! i \<noteq> 0" by auto
    with "1.prems" have "scan_in_use arr n (Suc i) = Inr (Some k)"
      by (intro "1.IH") auto
    with lt nz "1.prems" show ?thesis by (simp add: scan_in_use.simps [of arr n i])
  qed
qed


lemma ensure_arrays_fields:
  "flushing (ensure_arrays d priv) = flushing priv"
  "cond_waiters (ensure_arrays d priv) = cond_waiters priv"
  "num_array_textures_in_use (ensure_arrays d priv) = num_array_textures_in_use priv"
  "alloc_texture (ensure_arrays d priv) = alloc_texture priv"
  "array_in_use (ensure_arrays d priv) =
     (case array_in_use priv of None \<Rightarrow> Some (replicate (unat (ArraySize d)) 0)
      | Some arr \<Rightarrow> Some arr)"
  by (auto simp add: ensure_arrays_def split: option.splits)

lemma alloc_array_slot_index:
  assumes "alloc_array_slot self d priv = Inr (Slot_index i, priv')"
  shows "\<exists>arr. array_in_use (ensure_arrays d priv) = Some arr \<and>
      scan_in_use arr (unat (ArraySize d)) 0 = Inr (Some i) \<and>
      priv' = (ensure_arrays d priv)\<lparr>array_in_use := Some (arr[i := 1]),
        num_array_textures_in_use := num_array_textures_in_use priv + 1\<rparr>"
  using assms
  by (auto simp add: alloc_array_slot_def Let_def ensure_arrays_fields
      split: if_splits option.splits sum.splits)

lemmas allocator_defs = gst_d3d11_allocator_alloc_def alloc_array_slot_def ensure_arrays_def
  check_bind_flags_for_processor_input_view_def gst_d3d11_allocator_free_def
  gst_d3d11_allocator_set_flushing_def gst_d3d11_allocator_init_def
  GST_D3D11_ALLOCATION_FLAG_TEXTURE_ARRAY_def new_memory_def full_allocator_def

lemma scan_two_slots:
  "scan_in_use [0, 0] 2 0 = Inr (Some 0)"
  "scan_in_use [1, 0] 2 0 = Inr (Some (Suc 0))"
  "scan_in_use [0, 1] 2 0 = Inr (Some 0)"
  "scan_in_use [1, 1] 2 0 = Inr None"
  by (simp_all add: scan_in_use.simps [of _ 2 0] scan_in_use.simps [of _ 2 "Suc 0"]
      scan_in_use.simps [of _ 2 2] scan_in_use.simps [of _ 2 "Suc (Suc 0)"])

lemma alloc_after_free:
  assumes fr: "gst_d3d11_allocator_free priv0 dmem = Inr priv"
    and a0: "array_in_use priv0 = Some arr0"
    and nf: "\<not> flushing priv"
    and k: "unat (subresource_index dmem) < unat (ArraySize d)"
    and full: "\<forall>j<unat (subresource_index dmem). arr0 ! j \<noteq> 0"
  shows "\<exists>priv1. alloc_array_slot self d priv =
      Inr (Slot_index (unat (subresource_index dmem)), priv1) \<and>
      alloc_texture priv1 = alloc_texture priv"
proof -
  let ?k = "unat (subresource_index dmem)"
  from fr a0 have kl: "?k < length arr0" and ap: "array_in_use priv = Some (arr0[?k := 0])"
    by (auto simp add: gst_d3d11_allocator_free_def split: if_splits)
  have "scan_in_use (arr0[?k := 0]) (unat (ArraySize d)) 0 = Inr (Some ?k)"
    using k kl full by (intro scan_in_use_first_free) auto
  with ap nf show ?thesis
    by (simp add: alloc_array_slot_def ensure_arrays_def Let_def)
qed

text \<open>
  What an allocation with the array flag that returns an object without waiting has done.
\<close>

lemma array_alloc_returned:
  assumes arr: "flags AND GST_D3D11_ALLOCATION_FLAG_TEXTURE_ARRAY \<noteq> 0"
    and ret: "gst_d3d11_allocator_alloc [] self dev priv d flags sz =
        Inr (Alloc_returned (Some mem), priv', dev')"
  shows "\<exists>arr i.
        array_in_use (ensure_arrays d priv) = Some arr \<and>
        subresource_index mem = of_nat i \<and> unat (subresource_index mem) = i \<and>
        i < length arr \<and> i < unat (ArraySize d) \<and> arr ! i = 0 \<and>
        (\<forall>j<i. arr ! j \<noteq> 0) \<and>
        array_in_use priv' = Some (arr[i := 1]) \<and>
        num_array_textures_in_use priv' = num_array_textures_in_use priv + 1"
proof -
  from ret arr obtain i priv1 where
    slot: "alloc_array_slot self d priv = Inr (Slot_index i, priv1)"
    and mem: "subresource_index mem = of_nat i"
    and priv': "array_in_use priv' = array_in_use priv1"
      "num_array_textures_in_use priv' = num_array_textures_in_use priv1"
    by (auto simp add: gst_d3d11_allocator_alloc_def new_memory_def
        split: if_splits sum.splits prod.splits slot_result.splits option.splits)
  from alloc_array_slot_index [OF slot] obtain arr where
    a: "array_in_use (ensure_arrays d priv) = Some arr"
    and sc: "scan_in_use arr (unat (ArraySize d)) 0 = Inr (Some i)"
    and p1: "priv1 = (ensure_arrays d priv)\<lparr>array_in_use := Some (arr[i := 1]),
        num_array_textures_in_use := num_array_textures_in_use priv + 1\<rparr>"
    by blast
  from scan_in_use_Some [OF sc] have
    i: "i < unat (ArraySize d)" "i < length arr" "arr ! i = 0" "\<forall>j<i. arr ! j \<noteq> 0"
    by auto
  from i(1) have "i < 2 ^ 32"
    using unsigned_less [of "ArraySize d", where ?'a = nat] by simp
  then have u: "unat (of_nat i :: 32 word) = i"
    by (simp add: unat_of_nat take_bit_nat_eq_self)
  from a mem u i priv' p1 show ?thesis
    by (intro exI [of _ arr] exI [of _ i]) simp
qed

text \<open>
  Claim C8, amended.  An allocation with the array flag that returns a memory object
  without waiting (no wake-up: \<open>env = []\<close>) carries the lowest index whose entry of the
  bitmap is 0 at the scan, the bitmap being the allocator's or the new zeroed one; that
  entry is 1 afterwards and the in-use counter is one higher.  Consequently, after a slot
  is freed and no lower slot is free, which is so when all were in use, the next
  allocation that returns an object without waiting returns the freed slot's index.
  And it does return one without waiting when the freed index is below the array size
  asked for, the allocator is not flushing, the parent texture exists and the size is
  not 0.
\<close>

theorem array_alloc_first_fit:
  assumes arr: "flags AND GST_D3D11_ALLOCATION_FLAG_TEXTURE_ARRAY \<noteq> 0"
  shows "(gst_d3d11_allocator_alloc [] self dev priv d flags sz =
        Inr (Alloc_returned (Some mem), priv', dev') \<longrightarrow>
      (\<exists>arr i.
        array_in_use (ensure_arrays d priv) = Some arr \<and>
        subresource_index mem = of_nat i \<and> unat (subresource_index mem) = i \<and>
        i < length arr \<and> i < unat (ArraySize d) \<and> arr ! i = 0 \<and>
        (\<forall>j<i. arr ! j \<noteq> 0) \<and>
        array_in_use priv' = Some (arr[i := 1]) \<and>
        num_array_textures_in_use priv' = num_array_textures_in_use priv + 1)) \<and>
     (gst_d3d11_allocator_alloc [] self dev priv d flags sz =
        Inr (Alloc_returned (Some mem), priv', dev') \<and>
      gst_d3d11_allocator_free priv0 dmem = Inr priv \<and> array_in_use priv0 = Some arr0 \<and>
      (\<forall>j<unat (subresource_index dmem). arr0 ! j \<noteq> 0) \<longrightarrow>
        subresource_index mem = subresource_index dmem) \<and>
     (gst_d3d11_allocator_free priv0 dmem = Inr priv \<and> array_in_use priv0 = Some arr0 \<and>
      (\<forall>j<unat (subresource_index dmem). arr0 ! j \<noteq> 0) \<and>
      unat (subresource_index dmem) < unat (ArraySize d) \<and>
      \<not> flushing priv \<and> alloc_texture priv \<noteq> None \<and> sz \<noteq> 0 \<longrightarrow>
      (\<exists>mem2 priv2.
        gst_d3d11_allocator_alloc [] self dev priv d flags sz =
          Inr (Alloc_returned (Some mem2), priv2, dev) \<and>
        subresource_index mem2 = subresource_index dmem))"
proof (intro conjI impI)
  assume "gst_d3d11_allocator_alloc [] self dev priv d flags sz =
        Inr (Alloc_returned (Some mem), priv', dev')"
  with arr show "\<exists>arr i.
        array_in_use (ensure_arrays d priv) = Some arr \<and>
        subresource_index mem = of_nat i \<and> unat (subresource_index mem) = i \<and>
        i < length arr \<and> i < unat (ArraySize d) \<and> arr ! i = 0 \<and>
        (\<forall>j<i. arr ! j \<noteq> 0) \<and>
        array_in_use priv' = Some (arr[i := 1]) \<and>
        num_array_textures_in_use priv' = num_array_textures_in_use priv + 1"
    by (rule array_alloc_returned)
next
  let ?k = "unat (subresource_index dmem)"
  assume h: "gst_d3d11_allocator_alloc [] self dev priv d flags sz =
        Inr (Alloc_returned (Some mem), priv', dev') \<and>
      gst_d3d11_allocator_free priv0 dmem = Inr priv \<and> array_in_use priv0 = Some arr0 \<and>
      (\<forall>j<unat (subresource_index dmem). arr0 ! j \<noteq> 0)"
  then have ret: "gst_d3d11_allocator_alloc [] self dev priv d flags sz =
        Inr (Alloc_returned (Some mem), priv', dev')" by simp
  from array_alloc_returned [OF arr ret] obtain arr i where
    a: "array_in_use (ensure_arrays d priv) = Some arr"
    and m: "unat (subresource_index mem) = i"
    and i: "arr ! i = 0" "\<forall>j<i. arr ! j \<noteq> 0" "i < length arr"
    by blast
  from h have kl: "?k < length arr0" and ap: "array_in_use priv = Some (arr0[?k := 0])"
    by (auto simp add: gst_d3d11_allocator_free_def split: if_splits)
  from ap a have arr_eq: "arr = arr0[?k := 0]" by (simp add: ensure_arrays_fields)
  from kl have "arr ! ?k = 0" by (simp add: arr_eq)
  with i(2) have "\<not> ?k < i" by blast
  moreover have "\<not> i < ?k"
  proof
    assume "i < ?k"
    with h have "arr0 ! i \<noteq> 0" by blast
    with \<open>i < ?k\<close> i(1) show False by (simp add: arr_eq)
  qed
  ultimately have "i = ?k" by simp
  with m have "unat (subresource_index mem) = unat (subresource_index dmem)" by simp
  then show "subresource_index mem = subresource_index dmem"
    by (rule word_unat_eq_iff [THEN iffD2])
next
  assume h: "gst_d3d11_allocator_free priv0 dmem = Inr priv \<and> array_in_use priv0 = Some arr0 \<and>
      (\<forall>j<unat (subresource_index dmem). arr0 ! j \<noteq> 0) \<and>
      unat (subresource_index dmem) < unat (ArraySize d) \<and>
      \<not> flushing priv \<and> alloc_texture priv \<noteq> None \<and> sz \<noteq> 0"
  then obtain priv1 where
    slot: "alloc_array_slot self d priv = Inr (Slot_index (unat (subresource_index dmem)), priv1)"
    and t: "alloc_texture priv1 = alloc_texture priv"
    using alloc_after_free [of priv0 dmem priv arr0 d self] by blast
  from h obtain tx where tx: "alloc_texture priv = Some tx" by auto
  with h slot t arr show "\<exists>mem2 priv2.
        gst_d3d11_allocator_alloc [] self dev priv d flags sz =
          Inr (Alloc_returned (Some mem2), priv2, dev) \<and>
        subresource_index mem2 = subresource_index dmem"
    by (simp add: gst_d3d11_allocator_alloc_def new_memory_def)
qed

text \<open>
  Two allocations on a new allocator give slots 0 and 1 and leave \<open>full_allocator\<close>.
\<close>

lemma full_allocator_reached:
  "case gst_d3d11_allocator_alloc [] 0 working_device (snd gst_d3d11_allocator_init)
          example_desc GST_D3D11_ALLOCATION_FLAG_TEXTURE_ARRAY 1 of
     Inr (Alloc_returned (Some mem0), priv1, dev1) \<Rightarrow>
       (case gst_d3d11_allocator_alloc [] 0 dev1 priv1 example_desc
               GST_D3D11_ALLOCATION_FLAG_TEXTURE_ARRAY 1 of
          Inr (Alloc_returned (Some mem1), priv2, dev2) \<Rightarrow>
            priv2 = full_allocator \<and> subresource_index mem0 = 0 \<and>
            subresource_index mem1 = 1 \<and> mem_type mem0 = GST_D3D11_MEMORY_TYPE_ARRAY
        | _ \<Rightarrow> False)
   | _ \<Rightarrow> False"
  by code_simp


text \<open>
  Claim C8 as stated fails.  On a new allocator with two slots, two allocations take
  slots 0 and 1; slot 0 is freed, then slot 1.  The next allocation returns slot 0, the
  lowest free one, and not slot 1, the slot that was freed last.
\<close>

theorem array_alloc_skips_last_freed_slot:
  "case gst_d3d11_allocator_alloc [] 0 working_device (snd gst_d3d11_allocator_init)
          example_desc GST_D3D11_ALLOCATION_FLAG_TEXTURE_ARRAY 1 of
     Inr (Alloc_returned (Some mem0), priv1, dev1) \<Rightarrow>
       (case gst_d3d11_allocator_alloc [] 0 dev1 priv1 example_desc
               GST_D3D11_ALLOCATION_FLAG_TEXTURE_ARRAY 1 of
          Inr (Alloc_returned (Some mem1), priv2, dev2) \<Rightarrow>
            (case gst_d3d11_allocator_free priv2 mem0 of
               Inr priv3 \<Rightarrow>
                 (case gst_d3d11_allocator_free priv3 mem1 of
                    Inr priv4 \<Rightarrow>
                      (case gst_d3d11_allocator_alloc [] 0 dev2 priv4 example_desc
                              GST_D3D11_ALLOCATION_FLAG_TEXTURE_ARRAY 1 of
                         Inr (Alloc_returned (Some mem2), priv5, dev5) \<Rightarrow>
                           subresource_index mem1 = 1 \<and> subresource_index mem2 = 0 \<and>
                           subresource_index mem2 \<noteq> subresource_index mem1
                       | _ \<Rightarrow> False)
                  | _ \<Rightarrow> False)
             | _ \<Rightarrow> False)
        | _ \<Rightarrow> False)
   | _ \<Rightarrow> False"
  by code_simp

text \<open>
  The theorem with both slots of \<open>full_allocator\<close> in use: slot 0 is freed, and the next
  allocation returns slot 0 and leaves both slots in use.
\<close>

theorem array_alloc_first_fit_witness:
  "\<exists>mem2 priv2.
     gst_d3d11_allocator_alloc [] 0 working_device
       (full_allocator\<lparr>array_in_use := Some [0, 1], num_array_textures_in_use := 1\<rparr>)
       example_desc GST_D3D11_ALLOCATION_FLAG_TEXTURE_ARRAY 1 =
       Inr (Alloc_returned (Some mem2), priv2, working_device) \<and>
     subresource_index mem2 = 0 \<and> array_in_use priv2 = Some [1, 1] \<and>
     num_array_textures_in_use priv2 = 2"
proof -
  let ?dmem = "new_memory (Some 1) example_desc GST_D3D11_MEMORY_TYPE_ARRAY 0"
  let ?priv = "full_allocator\<lparr>array_in_use := Some [0, 1], num_array_textures_in_use := 1\<rparr>"
  have fl: "GST_D3D11_ALLOCATION_FLAG_TEXTURE_ARRAY AND
      GST_D3D11_ALLOCATION_FLAG_TEXTURE_ARRAY \<noteq> 0"
    by (simp add: GST_D3D11_ALLOCATION_FLAG_TEXTURE_ARRAY_def)
  have pre: "gst_d3d11_allocator_free full_allocator ?dmem = Inr ?priv \<and>
      array_in_use full_allocator = Some [1, 1] \<and>
      (\<forall>j<unat (subresource_index ?dmem). [1, 1 :: 8 word] ! j \<noteq> 0) \<and>
      unat (subresource_index ?dmem) < unat (ArraySize example_desc) \<and>
      \<not> flushing ?priv \<and> alloc_texture ?priv \<noteq> None \<and> (1 :: 64 word) \<noteq> 0"
    by (simp add: gst_d3d11_allocator_free_def full_allocator_def new_memory_def
        example_desc_def)
  note th = array_alloc_first_fit [OF fl, where self = 0 and dev = working_device and priv = ?priv
      and d = example_desc and sz = 1 and ?priv0.0 = full_allocator and dmem = ?dmem
      and ?arr0.0 = "[1, 1]"]
  from th [THEN conjunct2, THEN conjunct2, THEN mp, OF pre]
  obtain mem2 priv2 where ret:
    "gst_d3d11_allocator_alloc [] 0 working_device ?priv example_desc
       GST_D3D11_ALLOCATION_FLAG_TEXTURE_ARRAY 1 =
       Inr (Alloc_returned (Some mem2), priv2, working_device)"
    by blast
  from pre ret have "gst_d3d11_allocator_alloc [] 0 working_device ?priv example_desc
       GST_D3D11_ALLOCATION_FLAG_TEXTURE_ARRAY 1 =
       Inr (Alloc_returned (Some mem2), priv2, working_device) \<and>
      gst_d3d11_allocator_free full_allocator ?dmem = Inr ?priv \<and>
      array_in_use full_allocator = Some [1, 1] \<and>
      (\<forall>j<unat (subresource_index ?dmem). [1, 1 :: 8 word] ! j \<noteq> 0)"
    by blast
  from th [THEN conjunct2, THEN conjunct1, THEN mp, OF this]
  have idx: "subresource_index mem2 = 0"
    by (simp add: new_memory_def)
  from conjunct1 [OF th, THEN mp, OF ret] idx
  have "array_in_use priv2 = Some [1, 1] \<and> num_array_textures_in_use priv2 = 2"
    by (auto simp add: ensure_arrays_def full_allocator_def)
  with ret idx show ?thesis by blast
qed

text \<open>
  While \<open>flushing\<close> is set, a pass returns before the scan, and every call other than
  \<open>Set_flushing False\<close> keeps the flag set and the wait set empty.
\<close>

lemma flushing_slot:
  "flushing priv \<Longrightarrow> alloc_array_slot self d priv = Inr (Slot_flushing, priv)"
  by (simp add: alloc_array_slot_def)

lemma flushing_loop:
  "flushing priv \<Longrightarrow> alloc_array_loop env self d priv = Inr (Slot_flushing, priv)"
  by (cases env) (simp_all add: flushing_slot)

lemma flushing_step:
  assumes "flushing priv" and "cond_waiters priv = []" and "c \<noteq> Set_flushing False"
    and "allocator_step c priv = Inr priv'"
  shows "flushing priv' \<and> cond_waiters priv' = []"
proof (cases c)
  case (Try_alloc t d)
  with assms show ?thesis by (auto simp add: flushing_slot)
next
  case (Free dmem)
  with assms show ?thesis
    by (auto simp add: gst_d3d11_allocator_free_def split: option.splits if_splits)
next
  case (Set_flushing fl)
  with assms show ?thesis by (auto simp add: gst_d3d11_allocator_set_flushing_def)
qed

lemma flushing_run:
  "flushing priv \<Longrightarrow> cond_waiters priv = [] \<Longrightarrow> Set_flushing False \<notin> set cs \<Longrightarrow>
     allocator_run cs priv = Inr priv' \<Longrightarrow> flushing priv' \<and> cond_waiters priv' = []"
proof (induction cs arbitrary: priv)
  case Nil
  then show ?case by simp
next
  case (Cons c cs)
  from Cons.prems obtain priv1 where st: "allocator_step c priv = Inr priv1"
    and run: "allocator_run cs priv1 = Inr priv'"
    by (auto split: sum.splits)
  from Cons.prems have "c \<noteq> Set_flushing False" by auto
  from flushing_step [OF Cons.prems(1,2) this st] Cons.prems(3) run show ?case
    by (intro Cons.IH) auto
qed

text \<open>
  Claim C5.  With \<open>flushing\<close> set, an allocation with the array flag returns NULL and
  leaves the allocator as it was, whatever happens around it: no scan, no wait.  A thread
  that went to sleep in the slot wait and wakes with the flag set returns the same failure
  and does not sleep again.  \<open>gst_d3d11_allocator_set_flushing\<close> with \<open>True\<close> sets the flag and
  broadcasts: no thread is left in the wait set.  From there, through every sequence of
  allocation passes, frees and further \<open>Set_flushing True\<close> of any threads, the flag stays
  set and the wait set stays empty.
\<close>

theorem flushing_aborts_array_alloc:
  "(flushing priv \<and> flags AND GST_D3D11_ALLOCATION_FLAG_TEXTURE_ARRAY \<noteq> 0 \<and> sz \<noteq> 0 \<longrightarrow>
      gst_d3d11_allocator_alloc env self dev priv d flags sz =
        Inr (Alloc_returned None, priv, dev)) \<and>
   (alloc_array_slot self d priv = Inr (Slot_wait, priv1) \<and> flushing (e priv1) \<longrightarrow>
      alloc_array_loop (e # env) self d priv =
        Inr (Slot_flushing, (e priv1)\<lparr>cond_waiters := removeAll self (cond_waiters (e priv1))\<rparr>)) \<and>
   flushing (gst_d3d11_allocator_set_flushing priv True) \<and>
   cond_waiters (gst_d3d11_allocator_set_flushing priv True) = [] \<and>
   (Set_flushing False \<notin> set cs \<and>
    allocator_run cs (gst_d3d11_allocator_set_flushing priv True) = Inr priv' \<longrightarrow>
      flushing priv' \<and> cond_waiters priv' = [])"
proof (intro conjI impI)
  assume "flushing priv \<and> flags AND GST_D3D11_ALLOCATION_FLAG_TEXTURE_ARRAY \<noteq> 0 \<and> sz \<noteq> 0"
  then show "gst_d3d11_allocator_alloc env self dev priv d flags sz =
        Inr (Alloc_returned None, priv, dev)"
    by (simp add: gst_d3d11_allocator_alloc_def flushing_loop)
next
  assume "alloc_array_slot self d priv = Inr (Slot_wait, priv1) \<and> flushing (e priv1)"
  then show "alloc_array_loop (e # env) self d priv =
        Inr (Slot_flushing, (e priv1)\<lparr>cond_waiters := removeAll self (cond_waiters (e priv1))\<rparr>)"
    by (simp add: Let_def flushing_loop)
next
  show "flushing (gst_d3d11_allocator_set_flushing priv True)"
    and "cond_waiters (gst_d3d11_allocator_set_flushing priv True) = []"
    by (simp_all add: gst_d3d11_allocator_set_flushing_def)
next
  assume "Set_flushing False \<notin> set cs \<and>
    allocator_run cs (gst_d3d11_allocator_set_flushing priv True) = Inr priv'"
  then show "flushing priv'" and "cond_waiters priv' = []"
    using flushing_run [of "gst_d3d11_allocator_set_flushing priv True" cs priv']
    by (simp_all add: gst_d3d11_allocator_set_flushing_def)
qed

text \<open>
  Claim C3 fails on the code.  On a new allocator, an allocation with the array flag
  whose \<open>CreateTexture2D\<close> fails returns NULL, and slot 0 stays marked in use with the
  in-use counter at 1: the error path does not give the slot back.
\<close>

theorem array_alloc_failure_leaks_slot:
  "case gst_d3d11_allocator_alloc [] 0 create_failing_device (snd gst_d3d11_allocator_init)
          example_desc GST_D3D11_ALLOCATION_FLAG_TEXTURE_ARRAY 1 of
     Inr (Alloc_returned None, priv', dev') \<Rightarrow>
       array_in_use priv' = Some [1, 0] \<and> num_array_textures_in_use priv' = 1 \<and>
       num_array_textures_in_use (snd gst_d3d11_allocator_init) = 0
   | _ \<Rightarrow> False"
  by code_simp

text \<open>
  Claim C2 fails on the code.  A staging object from
  \<open>gst_d3d11_allocator_alloc_staging\<close> is freed on an allocator whose two slots are in use
  by array objects: slot 0 is cleared and the in-use counter decremented, though the freed
  object is not of the array type.
\<close>

theorem free_staging_clears_array_slot:
  "case gst_d3d11_allocator_alloc_staging (\<lambda>fmt w h pitch. True) working_device example_desc of
     (Some smem, dev') \<Rightarrow>
       mem_type smem = GST_D3D11_MEMORY_TYPE_STAGING \<and>
       gst_d3d11_allocator_free full_allocator smem =
         Inr (full_allocator\<lparr>array_in_use := Some [0, 1], num_array_textures_in_use := 1\<rparr>)
   | _ \<Rightarrow> False"
  by code_simp


text \<open>
  The theorem with thread 5 asleep on a full allocator when the flush starts.
\<close>

theorem flushing_aborts_array_alloc_witness:
  "gst_d3d11_allocator_alloc [] 5 working_device
     (gst_d3d11_allocator_set_flushing (full_allocator\<lparr>cond_waiters := [5]\<rparr>) True)
     example_desc GST_D3D11_ALLOCATION_FLAG_TEXTURE_ARRAY 1 =
     Inr (Alloc_returned None,
          gst_d3d11_allocator_set_flushing (full_allocator\<lparr>cond_waiters := [5]\<rparr>) True,
          working_device) \<and>
   alloc_array_loop [\<lambda>p. gst_d3d11_allocator_set_flushing p True] 5 example_desc
     full_allocator =
     Inr (Slot_flushing, gst_d3d11_allocator_set_flushing full_allocator True) \<and>
   cond_waiters (gst_d3d11_allocator_set_flushing (full_allocator\<lparr>cond_waiters := [5]\<rparr>) True)
     = [] \<and>
   (\<exists>priv'.
      allocator_run [Try_alloc 5 example_desc, Try_alloc 6 example_desc]
        (gst_d3d11_allocator_set_flushing (full_allocator\<lparr>cond_waiters := [5]\<rparr>) True) =
        Inr priv' \<and>
      flushing priv' \<and> cond_waiters priv' = [])"
proof -
  let ?w = "full_allocator\<lparr>cond_waiters := [5]\<rparr>"
  let ?fl = "gst_d3d11_allocator_set_flushing ?w True"
  let ?e = "\<lambda>p. gst_d3d11_allocator_set_flushing p True"
  have h1: "flushing ?fl \<and>
      GST_D3D11_ALLOCATION_FLAG_TEXTURE_ARRAY AND GST_D3D11_ALLOCATION_FLAG_TEXTURE_ARRAY \<noteq> 0 \<and>
      (1 :: 64 word) \<noteq> 0"
    by (simp add: gst_d3d11_allocator_set_flushing_def
        GST_D3D11_ALLOCATION_FLAG_TEXTURE_ARRAY_def)
  have h2: "alloc_array_slot 5 example_desc full_allocator = Inr (Slot_wait, ?w) \<and>
      flushing (?e ?w)"
    by (simp add: alloc_array_slot_def ensure_arrays_def full_allocator_def example_desc_def
        gst_d3d11_allocator_set_flushing_def scan_two_slots Let_def)
  have run: "allocator_run [Try_alloc 5 example_desc, Try_alloc 6 example_desc] ?fl = Inr ?fl"
    by (simp add: alloc_array_slot_def gst_d3d11_allocator_set_flushing_def
        full_allocator_def)
  note a = flushing_aborts_array_alloc [where priv = ?fl and flags = GST_D3D11_ALLOCATION_FLAG_TEXTURE_ARRAY
      and sz = 1 and env = "[]" and self = 5 and dev = working_device and d = example_desc]
  note b = flushing_aborts_array_alloc [where priv = full_allocator and self = 5 and d = example_desc
      and ?priv1.0 = ?w and e = ?e and env = "[]"]
  note c = flushing_aborts_array_alloc [where priv = ?w
      and cs = "[Try_alloc 5 example_desc, Try_alloc 6 example_desc]" and priv' = ?fl]
  have 1: "gst_d3d11_allocator_alloc [] 5 working_device ?fl example_desc
      GST_D3D11_ALLOCATION_FLAG_TEXTURE_ARRAY 1 = Inr (Alloc_returned None, ?fl, working_device)"
    using a h1 by blast
  have 2: "alloc_array_loop [?e] 5 example_desc full_allocator =
      Inr (Slot_flushing, gst_d3d11_allocator_set_flushing full_allocator True)"
    using b h2 by (simp add: gst_d3d11_allocator_set_flushing_def full_allocator_def)
  have 3: "cond_waiters ?fl = []" and 4: "flushing ?fl \<and> cond_waiters ?fl = []"
    using c run by simp_all
  from 1 2 3 4 run show ?thesis by blast
qed

section \<open>The even-size correction\<close>

text \<open>
  \<open>GST_ROUND_UP_2\<close> leaves an even word and adds 1 to an odd one; below \<open>G_MAXINT\<close> that
  is the smallest even number not less than it.
\<close>

lemma even_and_not_1: "even (x :: 32 word) \<Longrightarrow> x AND NOT 1 = x"
  by (rule bit_word_eqI) (auto simp add: bit_simps bit_0)

lemma even_plus_1_and_not_1:
  assumes "even (x :: 32 word)"
  shows "(x + 1) AND NOT 1 = x"
proof -
  from assms have "x + 1 = x OR 1" by (simp add: or_one_eq)
  then have "(x + 1) AND NOT 1 = (x OR 1) AND NOT 1" by simp
  also have "\<dots> = x AND NOT 1"
    by (rule bit_word_eqI) (auto simp add: bit_simps)
  also from assms have "\<dots> = x" by (rule even_and_not_1)
  finally show ?thesis .
qed

lemma round_up_2_cases:
  "GST_ROUND_UP_2 (w :: 32 word) = (if w mod 2 = 0 then w else w + 1)"
proof (cases "even w")
  case True
  then have "w mod 2 = 0" by (simp add: even_iff_mod_2_eq_zero)
  moreover from True have "(w + 1) AND NOT 1 = w" by (rule even_plus_1_and_not_1)
  ultimately show ?thesis by (simp add: GST_ROUND_UP_2_def)
next
  case False
  then have "w mod 2 \<noteq> 0" by (simp add: even_iff_mod_2_eq_zero)
  moreover from False have "even (w + 1)" by simp
  then have "(w + 1) AND NOT 1 = w + 1" by (rule even_and_not_1)
  ultimately show ?thesis by (simp add: GST_ROUND_UP_2_def)
qed

lemma even_unat_iff: "even (unat (w :: 32 word)) = even w"
  using bit_unsigned_iff [of w 0, where ?'a = nat] by (simp add: bit_0)

lemma round_up_2_smallest_even:
  assumes "unat (w :: 32 word) \<le> 0x7FFFFFFF"
  shows "even (unat (GST_ROUND_UP_2 w)) \<and> unat w \<le> unat (GST_ROUND_UP_2 w) \<and>
      unat (GST_ROUND_UP_2 w) < unat w + 2"
proof (cases "even w")
  case True
  then have "w mod 2 = 0" by (simp add: even_iff_mod_2_eq_zero)
  then have "GST_ROUND_UP_2 w = w" by (simp add: round_up_2_cases)
  moreover from True have "even (unat w)" by (simp add: even_unat_iff)
  ultimately show ?thesis by simp
next
  case False
  then have "w mod 2 \<noteq> 0" by (simp add: even_iff_mod_2_eq_zero)
  then have r: "GST_ROUND_UP_2 w = w + 1" by (simp add: round_up_2_cases)
  from assms have "unat w + unat (1 :: 32 word) < 2 ^ LENGTH(32)" by simp
  then have u: "unat (w + 1) = unat w + 1"
    by (simp only: unat_add_lem [THEN iffD1]) simp
  from False have "odd (unat w)" by (simp add: even_unat_iff)
  with u show ?thesis by (simp add: r)
qed


text \<open>
  The loop over the planes leaves in descriptor 0 what its first round wrote.
\<close>

lemma fold_planes_0:
  "0 < n \<Longrightarrow> fold (\<lambda>i ds. ds(i := g i (ds i))) [0..<n] ds 0 = g 0 (ds 0)"
proof (induction n)
  case 0
  then show ?case by simp
next
  case (Suc n)
  then show ?case by (cases "n = 0") simp_all
qed

lemma sub_scale_0: "GST_VIDEO_SUB_SCALE 0 val = val"
  by (simp add: GST_VIDEO_SUB_SCALE_def)

lemma alignment_first_plane:
  assumes planes: "0 < n_planes (finfo (info params))"
    and sf: "set_format (format (finfo (info params)))
        (info_width (info params) + (padding_left align + padding_right align))
        (info_height (info params) + (padding_top align + padding_bottom align)) = Some vi"
    and sub: "w_sub (finfo vi) 0 = 0" "h_sub (finfo vi) 0 = 0"
  shows "params_desc (snd (gst_d3d11_allocation_params_alignment set_format params align)) 0 =
      (params_desc params 0)\<lparr>Width := info_width vi, Height := info_height vi\<rparr>"
proof -
  let ?g = "\<lambda>i d. d\<lparr>Width := GST_VIDEO_INFO_COMP_WIDTH vi i,
      Height := GST_VIDEO_INFO_COMP_HEIGHT vi i\<rparr>"
  have "fold (\<lambda>i ds. ds(i := ?g i (ds i))) [0..<n_planes (finfo (info params))]
      (params_desc params) 0 = ?g 0 (params_desc params 0)"
    using planes by (rule fold_planes_0)
  moreover have "GST_VIDEO_INFO_COMP_WIDTH vi 0 = info_width vi"
    and "GST_VIDEO_INFO_COMP_HEIGHT vi 0 = info_height vi"
    by (simp_all add: GST_VIDEO_INFO_COMP_WIDTH_def GST_VIDEO_INFO_COMP_HEIGHT_def sub
        sub_scale_0)
  ultimately show ?thesis
    using sf by (simp add: gst_d3d11_allocation_params_alignment_def Let_def)
qed

lemma set_config_alignment_fields:
  "padding_left (set_config_alignment d0) = 0"
  "padding_top (set_config_alignment d0) = 0"
  "padding_right (set_config_alignment d0) = GST_ROUND_UP_2 (Width d0) - Width d0"
  "padding_bottom (set_config_alignment d0) = GST_ROUND_UP_2 (Height d0) - Height d0"
  by (simp_all add: set_config_alignment_def gst_video_alignment_reset_def Let_def)

text \<open>
  On parameters whose first descriptor holds the size of their video info, as
  \<open>gst_d3d11_allocation_params_new\<close> builds them for a format with a native DXGI format,
  the correction does what its comment says.  Let that size fit a \<open>gint\<close>, and let the
  video library accept the rounded size and give an info of that size whose first
  component is not subsampled.  Then for a first descriptor of format NV12, P010 or P016
  the corrected width and height are each the smallest even number not less than the
  original, the alignment has no left or top padding, and the whole delta is its right
  and bottom padding; for every other format the parameters are left as they were.
\<close>

lemma set_config_rounds_up_to_even:
  assumes planes: "0 < n_planes (finfo (info params))"
    and w: "info_width (info params) = Width (params_desc params 0)"
      "unat (Width (params_desc params 0)) \<le> 0x7FFFFFFF"
    and h: "info_height (info params) = Height (params_desc params 0)"
      "unat (Height (params_desc params 0)) \<le> 0x7FFFFFFF"
    and sf: "set_format (format (finfo (info params)))
        (GST_ROUND_UP_2 (Width (params_desc params 0)))
        (GST_ROUND_UP_2 (Height (params_desc params 0))) = Some vi"
      "info_width vi = GST_ROUND_UP_2 (Width (params_desc params 0))"
      "info_height vi = GST_ROUND_UP_2 (Height (params_desc params 0))"
      "w_sub (finfo vi) 0 = 0" "h_sub (finfo vi) 0 = 0"
  shows "let d0 = params_desc params 0;
        d0' = params_desc (set_config_fix_resolution set_format params) 0;
        align = set_config_alignment d0
    in if Format d0 = DXGI_FORMAT_NV12 \<or> Format d0 = DXGI_FORMAT_P010 \<or>
          Format d0 = DXGI_FORMAT_P016
       then even (unat (Width d0')) \<and> unat (Width d0) \<le> unat (Width d0') \<and>
            unat (Width d0') < unat (Width d0) + 2 \<and>
            even (unat (Height d0')) \<and> unat (Height d0) \<le> unat (Height d0') \<and>
            unat (Height d0') < unat (Height d0) + 2 \<and>
            padding_left align = 0 \<and> padding_top align = 0 \<and>
            Width d0' = Width d0 + padding_right align \<and>
            Height d0' = Height d0 + padding_bottom align
       else set_config_fix_resolution set_format params = params"
proof -
  let ?d0 = "params_desc params 0"
  let ?p' = "set_config_fix_resolution set_format params"
  let ?W = "Width ?d0" and ?H = "Height ?d0"
  show ?thesis
  proof (cases "Format ?d0 = DXGI_FORMAT_NV12 \<or> Format ?d0 = DXGI_FORMAT_P010 \<or>
      Format ?d0 = DXGI_FORMAT_P016")
    case False
    then show ?thesis by (simp add: set_config_fix_resolution_def Let_def)
  next
    case semi: True
    have dims: "Width (params_desc ?p' 0) = GST_ROUND_UP_2 ?W \<and>
        Height (params_desc ?p' 0) = GST_ROUND_UP_2 ?H"
    proof (cases "?W mod 2 \<noteq> 0 \<or> ?H mod 2 \<noteq> 0")
      case True
      with semi have p': "?p' = snd (gst_d3d11_allocation_params_alignment set_format params
          (set_config_alignment ?d0))"
        by (simp add: set_config_fix_resolution_def Let_def)
      have "params_desc ?p' 0 = ?d0\<lparr>Width := info_width vi, Height := info_height vi\<rparr>"
        unfolding p' using sf(1)
        by (intro alignment_first_plane [OF planes _ sf(4,5)])
          (simp add: set_config_alignment_fields w(1) h(1))
      with sf(2,3) show ?thesis by simp
    next
      case False
      with semi have "?p' = params" by (simp add: set_config_fix_resolution_def Let_def)
      with False show ?thesis by (simp add: round_up_2_cases)
    qed
    from dims round_up_2_smallest_even [OF w(2)] round_up_2_smallest_even [OF h(2)] semi
    show ?thesis
      by (simp add: Let_def set_config_alignment_fields)
  qed
qed


text \<open>
  \<open>nv12_params\<close> is what \<open>gst_d3d11_allocation_params_new\<close> returns for NV12.
\<close>

lemma nv12_params_new:
  "gst_d3d11_allocation_params_new nv12_format_from_gst (nv12_info w h) 0 0 =
     Inr (Some (nv12_params w h))"
  by (simp add: gst_d3d11_allocation_params_new_def nv12_format_from_gst_def nv12_info_def
      nv12_finfo_def nv12_params_def DXGI_FORMAT_NV12_def DXGI_FORMAT_UNKNOWN_def
      cong: if_cong)

text \<open>
  Claim C9 fails on the code.  The caller supplies NV12 parameters of 100 by 100 on which
  \<open>gst_d3d11_allocation_params_alignment\<close> was called with one pixel of right and bottom
  padding: the first descriptor is 101 by 101.  The pool's correction computes one more
  pixel of padding from the descriptor, the alignment adds it to the video info's 100 by
  100, and the descriptor stays 101 by 101: odd, where the smallest even size is 102 by
  102.  With parameters of 641 by 479 padded by two pixels the descriptor is 643 by 481,
  and the correction leaves 642 by 480: even, and smaller than the original.
\<close>

theorem set_config_keeps_odd_prealigned_size:
  "(case gst_d3d11_allocation_params_alignment nv12_set_format (nv12_params 100 100)
           (gst_video_alignment_reset\<lparr>padding_right := 1, padding_bottom := 1\<rparr>) of
      (ok, params) \<Rightarrow>
        ok \<and> Format (params_desc params 0) = DXGI_FORMAT_NV12 \<and>
        Width (params_desc params 0) = 101 \<and> Height (params_desc params 0) = 101 \<and>
        Width (params_desc (set_config_fix_resolution nv12_set_format params) 0) = 101 \<and>
        Height (params_desc (set_config_fix_resolution nv12_set_format params) 0) = 101) \<and>
   (case gst_d3d11_allocation_params_alignment nv12_set_format (nv12_params 641 479)
           (gst_video_alignment_reset\<lparr>padding_right := 2, padding_bottom := 2\<rparr>) of
      (ok, params) \<Rightarrow>
        ok \<and> Format (params_desc params 0) = DXGI_FORMAT_NV12 \<and>
        Width (params_desc params 0) = 643 \<and> Height (params_desc params 0) = 481 \<and>
        Width (params_desc (set_config_fix_resolution nv12_set_format params) 0) = 642 \<and>
        Height (params_desc (set_config_fix_resolution nv12_set_format params) 0) = 480)"
  by code_simp

text \<open>
  At the first of these inputs the descriptor is NV12 and odd, so the correction is
  taken; the width it leaves is odd.
\<close>

theorem set_config_keeps_odd_prealigned_size_witness:
  "Width (params_desc
     (snd (gst_d3d11_allocation_params_alignment nv12_set_format (nv12_params 100 100)
        (gst_video_alignment_reset\<lparr>padding_right := 1, padding_bottom := 1\<rparr>))) 0) mod 2 = 1 \<and>
   odd (unat (Width (params_desc
     (set_config_fix_resolution nv12_set_format
        (snd (gst_d3d11_allocation_params_alignment nv12_set_format (nv12_params 100 100)
           (gst_video_alignment_reset\<lparr>padding_right := 1, padding_bottom := 1\<rparr>)))) 0)))"
  using set_config_keeps_odd_prealigned_size by (simp add: case_prod_beta)

text \<open>
  On the pool's own NV12 parameters of 641 by 479 the correction gives 642 by 480, with
  one pixel of right and one of bottom padding.
\<close>

lemma set_config_rounds_up_to_even_example:
  "even (unat (Width (params_desc
      (set_config_fix_resolution nv12_set_format (nv12_params 641 479)) 0))) \<and>
   641 \<le> unat (Width (params_desc
      (set_config_fix_resolution nv12_set_format (nv12_params 641 479)) 0)) \<and>
   unat (Width (params_desc
      (set_config_fix_resolution nv12_set_format (nv12_params 641 479)) 0)) < 643 \<and>
   even (unat (Height (params_desc
      (set_config_fix_resolution nv12_set_format (nv12_params 641 479)) 0))) \<and>
   479 \<le> unat (Height (params_desc
      (set_config_fix_resolution nv12_set_format (nv12_params 641 479)) 0)) \<and>
   unat (Height (params_desc
      (set_config_fix_resolution nv12_set_format (nv12_params 641 479)) 0)) < 481 \<and>
   padding_right (set_config_alignment (params_desc (nv12_params 641 479) 0)) = 1 \<and>
   padding_bottom (set_config_alignment (params_desc (nv12_params 641 479) 0)) = 1"
proof -
  let ?p = "nv12_params 641 479"
  have ru: "GST_ROUND_UP_2 (641 :: 32 word) = 642" "GST_ROUND_UP_2 (479 :: 32 word) = 480"
    by (simp_all add: round_up_2_cases)
  have d0: "Width (params_desc ?p 0) = 641" "Height (params_desc ?p 0) = 479"
    "Format (params_desc ?p 0) = DXGI_FORMAT_NV12"
    by (simp_all add: nv12_params_def new_desc_def zero_desc_def)
  have planes: "0 < n_planes (finfo (info ?p))"
    and w: "info_width (info ?p) = Width (params_desc ?p 0)"
      "unat (Width (params_desc ?p 0)) \<le> 0x7FFFFFFF"
    and h: "info_height (info ?p) = Height (params_desc ?p 0)"
      "unat (Height (params_desc ?p 0)) \<le> 0x7FFFFFFF"
    by (simp_all add: d0) (simp_all add: nv12_params_def nv12_info_def nv12_finfo_def)
  have sf: "nv12_set_format (format (finfo (info ?p)))
        (GST_ROUND_UP_2 (Width (params_desc ?p 0)))
        (GST_ROUND_UP_2 (Height (params_desc ?p 0))) = Some (nv12_info 642 480)"
      "info_width (nv12_info 642 480) = GST_ROUND_UP_2 (Width (params_desc ?p 0))"
      "info_height (nv12_info 642 480) = GST_ROUND_UP_2 (Height (params_desc ?p 0))"
      "w_sub (finfo (nv12_info 642 480)) 0 = 0" "h_sub (finfo (nv12_info 642 480)) 0 = 0"
    by (simp_all add: d0 ru) (simp_all add: nv12_params_def nv12_info_def nv12_finfo_def
        nv12_set_format_def)
  from set_config_rounds_up_to_even [where set_format = nv12_set_format and params = ?p
      and vi = "nv12_info 642 480", OF planes w h sf]
  show ?thesis
    by (simp add: Let_def d0 set_config_alignment_fields ru)
qed

end
